theory Spec2Isabelle
  imports Complex_Main "HOL-Library.AList" "HOL-Library.Log_Nat"
begin

section \<open>The JavaScript platform, as far as app.js uses it\<close>

subsection \<open>Numbers\<close>

text \<open>
  A JavaScript number is an IEEE 754 double: a finite value, here the rational it
  stands for, one of the two infinities, or NaN. The two zeros are one value; the
  program never divides by a variable and shows numbers only through \<open>toFixed\<close>, so
  it cannot tell them apart. Each arithmetic operation returns the exact result
  rounded to the nearest double, a tie going to the even significand, with gradual
  underflow below \<open>2^-1022\<close> and infinity from \<open>2^1024\<close> on.
\<close>

datatype jsnum = Fin rat | PInf | NInf | NaN

definition roundHalfEven :: "rat \<Rightarrow> int" where
  "roundHalfEven q =
     (let f = \<lfloor>q\<rfloor>; r = q - of_int f
      in if r < 1 / 2 then f else if 1 / 2 < r then f + 1 else if even f then f else f + 1)"

text \<open>The binary exponent of a positive rational: \<open>2^ilog2 x \<le> x < 2^(ilog2 x + 1)\<close>.\<close>

definition ilog2 :: "rat \<Rightarrow> int" where
  "ilog2 x =
     (let (p, q) = quotient_of x; d = bitlen p - bitlen q
      in if power_int 2 d \<le> x then d else d - 1)"

text \<open>A double has 53 significant bits and no exponent below \<open>-1074\<close>.\<close>

definition roundToDouble :: "rat \<Rightarrow> rat" where
  "roundToDouble x =
     (if x = 0 then 0
      else (let e = max (ilog2 \<bar>x\<bar> - 52) (- 1074)
            in of_int (roundHalfEven (x / power_int 2 e)) * power_int 2 e))"

text \<open>The bound of the finite doubles, \<open>2^1024\<close>, written out.\<close>

definition overflowBound :: rat where
  "overflowBound =
     179769313486231590772930519078902473361797697894230657273430081157732675805500963132708477322407536021120113879871393357658789768814416622492847430639474124377767893424865485276302219601246094119453082952085005768838150682342462881473913110540827237163350510684586298239947245938479716304835356329624224137216"

definition toDouble :: "rat \<Rightarrow> jsnum" where
  "toDouble x =
     (let y = roundToDouble x
      in if overflowBound \<le> y then PInf else if y \<le> - overflowBound then NInf else Fin y)"

definition jsNeg :: "jsnum \<Rightarrow> jsnum" where
  "jsNeg x = (case x of Fin a \<Rightarrow> Fin (- a) | PInf \<Rightarrow> NInf | NInf \<Rightarrow> PInf | NaN \<Rightarrow> NaN)"

fun jsAdd :: "jsnum \<Rightarrow> jsnum \<Rightarrow> jsnum" where
  "jsAdd (Fin a) (Fin b) = toDouble (a + b)"
| "jsAdd NaN y = NaN"
| "jsAdd x NaN = NaN"
| "jsAdd PInf NInf = NaN"
| "jsAdd NInf PInf = NaN"
| "jsAdd PInf y = PInf"
| "jsAdd NInf y = NInf"
| "jsAdd (Fin a) y = y"

definition jsSub :: "jsnum \<Rightarrow> jsnum \<Rightarrow> jsnum" where
  "jsSub x y = jsAdd x (jsNeg y)"

fun jsMul :: "jsnum \<Rightarrow> jsnum \<Rightarrow> jsnum" where
  "jsMul (Fin a) (Fin b) = toDouble (a * b)"
| "jsMul NaN y = NaN"
| "jsMul x NaN = NaN"
| "jsMul (Fin a) y = (if a = 0 then NaN else if 0 < a then y else jsNeg y)"
| "jsMul x (Fin b) = (if b = 0 then NaN else if 0 < b then x else jsNeg x)"
| "jsMul x y = (if x = y then PInf else NInf)"

text \<open>Division by a positive finite constant, the only division the program does.\<close>

definition jsDivBy :: "jsnum \<Rightarrow> rat \<Rightarrow> jsnum" where
  "jsDivBy x c = (case x of Fin a \<Rightarrow> toDouble (a / c) | PInf \<Rightarrow> PInf | NInf \<Rightarrow> NInf | NaN \<Rightarrow> NaN)"

text \<open>\<open>Math.round\<close>: the nearest integer, a tie going up. It is exact.\<close>

definition jsRound :: "rat \<Rightarrow> int" where
  "jsRound x = \<lfloor>x + 1 / 2\<rfloor>"

definition jsMathRound :: "jsnum \<Rightarrow> jsnum" where
  "jsMathRound x =
     (case x of Fin a \<Rightarrow> Fin (of_int (jsRound a)) | PInf \<Rightarrow> PInf | NInf \<Rightarrow> NInf | NaN \<Rightarrow> NaN)"

definition jsIsNaN :: "jsnum \<Rightarrow> bool" where
  "jsIsNaN x = (x = NaN)"

text \<open>\<open>x < 0\<close> on numbers.\<close>

definition jsNegative :: "jsnum \<Rightarrow> bool" where
  "jsNegative x = (case x of Fin a \<Rightarrow> a < 0 | PInf \<Rightarrow> False | NInf \<Rightarrow> True | NaN \<Rightarrow> False)"

subsection \<open>Strings\<close>

text \<open>String comparison with \<open><\<close>: lexicographic on the character codes.\<close>

fun jsStrLess :: "string \<Rightarrow> string \<Rightarrow> bool" where
  "jsStrLess [] [] = False"
| "jsStrLess [] (b # bs) = True"
| "jsStrLess (a # as) [] = False"
| "jsStrLess (a # as) (b # bs) =
     (if (of_char a :: nat) < of_char b then True
      else if (of_char b :: nat) < of_char a then False
      else jsStrLess as bs)"

text \<open>\<open>a || b\<close> on strings.\<close>

definition jsOr :: "string \<Rightarrow> string \<Rightarrow> string" where
  "jsOr a b = (if a \<noteq> [] then a else b)"

text \<open>\<open>String.prototype.trim\<close>, on the ASCII white space.\<close>

definition isSpace :: "char \<Rightarrow> bool" where
  "isSpace c = ((of_char c :: nat) = 32 \<or> (9 \<le> (of_char c :: nat) \<and> (of_char c :: nat) \<le> 13))"

definition trim :: "string \<Rightarrow> string" where
  "trim s = rev (dropWhile isSpace (rev (dropWhile isSpace s)))"

subsection \<open>The proleptic Gregorian calendar\<close>

text \<open>
  A \<open>Date\<close> is its time value: milliseconds since 1970-01-01T00:00Z as an \<open>int\<close>;
  where JavaScript has an Invalid Date (time value NaN) the model has \<open>None\<close>. The
  device's time zone is the number \<open>tz\<close> that \<open>getTimezoneOffset()\<close> returns: minutes
  to add to local time to reach UTC (300 for UTC-5, -60 for UTC+1). It is taken as
  constant (no daylight-saving change).
\<close>

definition msPerDay :: int where
  "msPerDay = 1000 * 60 * 60 * 24"

text \<open>Day number (days since 1970-01-01) of a calendar date, and back.\<close>

definition days_from_civil :: "int \<Rightarrow> int \<Rightarrow> int \<Rightarrow> int" where
  "days_from_civil y m d =
     (let y' = (if m \<le> 2 then y - 1 else y);
          era = y' div 400;
          yoe = y' - era * 400;
          doy = (153 * (if 2 < m then m - 3 else m + 9) + 2) div 5 + d - 1;
          doe = yoe * 365 + yoe div 4 - yoe div 100 + doy
      in era * 146097 + doe - 719468)"

definition civil_from_days :: "int \<Rightarrow> int \<times> int \<times> int" where
  "civil_from_days z =
     (let z' = z + 719468;
          era = z' div 146097;
          doe = z' mod 146097;
          yoe = (doe - doe div 1460 + doe div 36524 - doe div 146096) div 365;
          doy = doe - (365 * yoe + yoe div 4 - yoe div 100);
          mp = (5 * doy + 2) div 153;
          d = doy - (153 * mp + 2) div 5 + 1;
          m = (if mp < 10 then mp + 3 else mp - 9)
      in (if m \<le> 2 then yoe + era * 400 + 1 else yoe + era * 400, m, d))"

subsection \<open>Reading and writing decimal fields\<close>

definition isDigit :: "char \<Rightarrow> bool" where
  "isDigit c = (48 \<le> (of_char c :: nat) \<and> (of_char c :: nat) \<le> 57)"

definition digitsVal :: "string \<Rightarrow> int" where
  "digitsVal ds = foldl (\<lambda>acc c. 10 * acc + (int (of_char c) - 48)) 0 ds"

text \<open>
  A number token of exactly \<open>n\<close> digits at the head of the string: its value and the
  rest of the string.
\<close>

definition fixedNumber :: "nat \<Rightarrow> string \<Rightarrow> (int \<times> string) option" where
  "fixedNumber n s =
     (let ds = takeWhile isDigit s
      in if length ds = n then Some (digitsVal ds, dropWhile isDigit s) else None)"

definition skipSymbol :: "char \<Rightarrow> string \<Rightarrow> string option" where
  "skipSymbol c s = (case s of [] \<Rightarrow> None | x # xs \<Rightarrow> if x = c then Some xs else None)"

definition digitChar :: "int \<Rightarrow> char" where
  "digitChar n = char_of (nat (48 + n mod 10))"

definition pad2 :: "int \<Rightarrow> string" where
  "pad2 n = [digitChar (n div 10), digitChar n]"

definition pad3 :: "int \<Rightarrow> string" where
  "pad3 n = digitChar (n div 100) # pad2 n"

definition pad4 :: "int \<Rightarrow> string" where
  "pad4 n = digitChar (n div 1000) # pad3 n"

definition pad6 :: "int \<Rightarrow> string" where
  "pad6 n = digitChar (n div 100000) # digitChar (n div 10000) # pad4 n"

definition yearString :: "int \<Rightarrow> string" where
  "yearString y =
     (if 0 \<le> y \<and> y \<le> 9999 then pad4 y
      else (if y < 0 then CHR ''-'' else CHR ''+'') # pad6 \<bar>y\<bar>)"

subsection \<open>Date.parse, the Date constructor on a string, and toISOString\<close>

text \<open>
  ECMAScript fixes what \<open>Date.parse\<close> returns on its date-time string format and
  leaves every other string to the engine. So the program's functions that read time
  strings take the engine's \<open>Date.parse\<close> as the parameter \<open>parse\<close>, from strings to
  time values, \<open>None\<close> for NaN, and their theorems hold for every engine.

  \<open>dateParse\<close> is one such function: the date-time string format as V8 reads it. A
  date alone is UTC, a date with a time and no zone is local time; a day of the month
  up to 31 is accepted in every month and runs over into the next; the hour 24 is
  accepted with zero minutes, seconds and milliseconds; of the milliseconds the first
  three digits count. On a string outside the format V8 goes on to its legacy parser,
  which is not modelled: \<open>dateParse\<close> returns \<open>None\<close> there. It serves for the pay
  period, whose date strings the program writes itself, and for the examples.
\<close>

definition parseYear :: "string \<Rightarrow> (int \<times> string) option" where
  "parseYear s =
     (case s of
        [] \<Rightarrow> None
      | c # cs \<Rightarrow>
          if c = CHR ''+'' \<or> c = CHR ''-'' then
            (case fixedNumber 6 cs of
               None \<Rightarrow> None
             | Some (y, rest) \<Rightarrow>
                 if c = CHR ''-'' \<and> y = 0 then None
                 else Some (if c = CHR ''-'' then - y else y, rest))
          else fixedNumber 4 s)"

text \<open>Month and day after the year, each optional, 1 when left out.\<close>

definition parseMonthDay :: "string \<Rightarrow> (int \<times> int \<times> string) option" where
  "parseMonthDay s =
     (case skipSymbol CHR ''-'' s of
        None \<Rightarrow> Some (1, 1, s)
      | Some s1 \<Rightarrow>
          (case fixedNumber 2 s1 of
             None \<Rightarrow> None
           | Some (mo, s2) \<Rightarrow>
               if mo < 1 \<or> 12 < mo then None
               else
                 (case skipSymbol CHR ''-'' s2 of
                    None \<Rightarrow> Some (mo, 1, s2)
                  | Some s3 \<Rightarrow>
                      (case fixedNumber 2 s3 of
                         None \<Rightarrow> None
                       | Some (d, s4) \<Rightarrow> if d < 1 \<or> 31 < d then None else Some (mo, d, s4)))))"

text \<open>Seconds and milliseconds after the minutes, each optional: milliseconds and rest.\<close>

definition parseSeconds :: "string \<Rightarrow> (int \<times> string) option" where
  "parseSeconds s =
     (case skipSymbol CHR '':'' s of
        None \<Rightarrow> Some (0, s)
      | Some s1 \<Rightarrow>
          (case fixedNumber 2 s1 of
             None \<Rightarrow> None
           | Some (sec, s2) \<Rightarrow>
               if 59 < sec then None
               else
                 (case skipSymbol CHR ''.'' s2 of
                    None \<Rightarrow> Some (sec * 1000, s2)
                  | Some s3 \<Rightarrow>
                      (let ds = takeWhile isDigit s3
                       in if ds = [] then None
                          else Some (sec * 1000 + digitsVal (take 3 (ds @ ''00'')),
                                     dropWhile isDigit s3)))))"

text \<open>
  The zone after the time: \<open>Z\<close>, or a sign with \<open>hh:mm\<close> or \<open>hhmm\<close>, as minutes east
  of UTC; nothing at all is local time, \<open>None\<close> inside. Nothing may follow.
\<close>

definition parseZone :: "string \<Rightarrow> int option option" where
  "parseZone s =
     (case s of
        [] \<Rightarrow> Some None
      | c # cs \<Rightarrow>
          if c = CHR ''Z'' \<or> c = CHR ''z'' then (if cs = [] then Some (Some 0) else None)
          else if c = CHR ''+'' \<or> c = CHR ''-'' then
            (let sign = (if c = CHR ''+'' then 1 else - 1)
             in case fixedNumber 4 cs of
                  Some (hm, rest) \<Rightarrow>
                    if rest = [] \<and> hm div 100 \<le> 23 \<and> hm mod 100 \<le> 59
                    then Some (Some (sign * (hm div 100 * 60 + hm mod 100))) else None
                | None \<Rightarrow>
                    (case fixedNumber 2 cs of
                       None \<Rightarrow> None
                     | Some (h, s1) \<Rightarrow>
                         if 23 < h then None
                         else
                           (case skipSymbol CHR '':'' s1 of
                              None \<Rightarrow> None
                            | Some s2 \<Rightarrow>
                                (case fixedNumber 2 s2 of
                                   None \<Rightarrow> None
                                 | Some (mi, rest) \<Rightarrow>
                                     if rest = [] \<and> mi \<le> 59
                                     then Some (Some (sign * (h * 60 + mi))) else None))))
          else None)"

text \<open>The time after \<open>T\<close>: milliseconds into the day, and the zone.\<close>

definition parseTime :: "string \<Rightarrow> (int \<times> int option) option" where
  "parseTime s =
     (case fixedNumber 2 s of
        None \<Rightarrow> None
      | Some (h, s1) \<Rightarrow>
          if 24 < h then None
          else
            (case skipSymbol CHR '':'' s1 of
               None \<Rightarrow> None
             | Some s2 \<Rightarrow>
                 (case fixedNumber 2 s2 of
                    None \<Rightarrow> None
                  | Some (mi, s3) \<Rightarrow>
                      if 59 < mi then None
                      else
                        (case parseSeconds s3 of
                           None \<Rightarrow> None
                         | Some (ms, s4) \<Rightarrow>
                             if h = 24 \<and> (0 < mi \<or> 0 < ms) then None
                             else
                               (case parseZone s4 of
                                  None \<Rightarrow> None
                                | Some zone \<Rightarrow>
                                    Some (h * 3600000 + mi * 60000 + ms, zone))))))"

definition dateParse :: "int \<Rightarrow> string \<Rightarrow> int option" where
  "dateParse tz str =
     (case parseYear str of
        None \<Rightarrow> None
      | Some (y, s1) \<Rightarrow>
          (case parseMonthDay s1 of
             None \<Rightarrow> None
           | Some (mo, d, s2) \<Rightarrow>
               (let day = days_from_civil y mo d
                in if s2 = [] then Some (day * msPerDay)
                   else if hd s2 = CHR ''T'' \<or> hd s2 = CHR ''t'' then
                     (case parseTime (tl s2) of
                        None \<Rightarrow> None
                      | Some (ms, None) \<Rightarrow> Some (day * msPerDay + ms + tz * 60000)
                      | Some (ms, Some east) \<Rightarrow> Some (day * msPerDay + ms - east * 60000))
                   else None)))"

text \<open>
  The time value of \<open>new Date(str)\<close>, given the engine's \<open>Date.parse\<close>: the empty
  string is an Invalid Date in every engine, and so is a time more than 100 million
  days from the epoch.
\<close>

definition timeValue :: "(string \<Rightarrow> int option) \<Rightarrow> string \<Rightarrow> int option" where
  "timeValue parse str =
     (if str = [] then None
      else (case parse str of
              None \<Rightarrow> None
            | Some t \<Rightarrow> if \<bar>t\<bar> \<le> 8640000000000000 then Some t else None))"

definition newDate :: "int \<Rightarrow> string \<Rightarrow> int option" where
  "newDate tz str = timeValue (dateParse tz) str"

definition toISOString :: "int \<Rightarrow> string" where
  "toISOString t =
     (let (y, m, d) = civil_from_days (t div msPerDay);
          ms = t mod msPerDay
      in yearString y @ ''-'' @ pad2 m @ ''-'' @ pad2 d @ ''T'' @ pad2 (ms div 3600000)
         @ '':'' @ pad2 (ms div 60000 mod 60) @ '':'' @ pad2 (ms div 1000 mod 60)
         @ ''.'' @ pad3 (ms mod 1000) @ ''Z'')"

text \<open>
  \<open>d.setDate(d.getDate() + n)\<close>: the local calendar day moves by \<open>n\<close> and the local
  time of day stays, so with a constant offset the time value moves by \<open>n\<close> days.
\<close>

definition setDatePlus :: "int \<Rightarrow> int \<Rightarrow> int" where
  "setDatePlus t n = t + n * msPerDay"

section \<open>app.js: dates\<close>

text \<open>\<open>getISODateString(date)\<close>: the local calendar day of a Date, as \<open>YYYY-MM-DD\<close>.\<close>

definition getISODateString :: "int \<Rightarrow> int \<Rightarrow> string" where
  "getISODateString tz date =
     (let tzOffset = tz * 60000;
          localDate = date - tzOffset
      in takeWhile (\<lambda>c. c \<noteq> CHR ''T'') (toISOString localDate))"

section \<open>app.js: hours between two time strings\<close>

text \<open>
  \<open>computeHours(startStr, endStr)\<close>. The two time values are integers of at most 54
  bits; \<open>end - start\<close> is NaN when either Date is invalid, which is the model's
  \<open>None\<close> cases.
\<close>

definition computeHours :: "(string \<Rightarrow> int option) \<Rightarrow> string \<Rightarrow> string \<Rightarrow> jsnum" where
  "computeHours parse startStr endStr =
     (case (timeValue parse startStr, timeValue parse endStr) of
        (Some start, Some end') \<Rightarrow>
          (let diffMs = jsSub (Fin (of_int end')) (Fin (of_int start))
           in if jsIsNaN diffMs \<or> jsNegative diffMs then Fin 0
              else (let minutes = jsMathRound (jsDivBy diffMs 60000);
                        hours = jsDivBy minutes 60
                    in hours))
      | _ \<Rightarrow> Fin 0)"

section \<open>app.js: the documents\<close>

text \<open>
  A field that is absent, \<open>undefined\<close> or \<open>''\<close> is falsy in JavaScript and the
  program reads every time field through \<open>field || ''\<close>; the model keeps the empty
  string for all three.
\<close>

record shift =
  username :: string
  date :: string
  timeIn :: string
  timeOut :: string
  adjTimeIn :: string
  adjTimeOut :: string

record user =
  userName :: string
  role :: string
  hourlyRate :: jsnum
  passwordHash :: string

record config =
  payPeriodStart :: string

section \<open>app.js: MockFirestore\<close>

text \<open>
  One collection is a JavaScript object from document ids to documents. Its keys are
  enumerated in insertion order, so the model is an association list: \<open>set\<close> on a
  new id appends, on an old id replaces in place, \<open>delete\<close> removes the id.
\<close>

type_synonym 'a collection = "(string \<times> 'a) list"

datatype failure =
    AlreadyPunchedIn      \<comment> \<open>alert: You have already punched in today.\<close>
  | NotPunchedIn          \<comment> \<open>alert: You have not punched in yet today.\<close>
  | AlreadyPunchedOut     \<comment> \<open>alert: You have already punched out today.\<close>
  | MissingCredentials    \<comment> \<open>message: Please enter a username and password.\<close>
  | DuplicateUsername     \<comment> \<open>message: Username already exists.\<close>
  | RecordNotFound string \<comment> \<open>thrown by update: Document id does not exist\<close>

definition doc_get :: "'a collection \<Rightarrow> string \<Rightarrow> 'a option" where
  "doc_get collectionData id' = map_of collectionData id'"

definition doc_set :: "'a collection \<Rightarrow> string \<Rightarrow> 'a \<Rightarrow> 'a collection" where
  "doc_set collectionData id' newData = AList.update id' newData collectionData"

text \<open>
  \<open>update(updateData)\<close> merges the given fields into the stored document; the
  merge is the function \<open>upd\<close> on the document.
\<close>

definition doc_update :: "'a collection \<Rightarrow> string \<Rightarrow> ('a \<Rightarrow> 'a) \<Rightarrow> failure + 'a collection" where
  "doc_update collectionData id' upd =
     (case map_of collectionData id' of
        None \<Rightarrow> Inl (RecordNotFound id')
      | Some old \<Rightarrow> Inr (AList.update id' (upd old) collectionData))"

definition doc_delete :: "'a collection \<Rightarrow> string \<Rightarrow> 'a collection" where
  "doc_delete collectionData id' = AList.delete id' collectionData"

text \<open>\<open>where(field, '==', value).get()\<close>: the matching documents with their ids.\<close>

definition whereEq :: "('a \<Rightarrow> 'b) \<Rightarrow> 'b \<Rightarrow> 'a collection \<Rightarrow> (string \<times> 'a) list" where
  "whereEq field val collectionData = filter (\<lambda>(docId, doc). field doc = val) collectionData"

record database =
  users :: "user collection"
  shifts :: "shift collection"
  settings :: "config collection"

section \<open>app.js: queries and mutations\<close>

text \<open>
  \<open>getShiftsForUser\<close>: the user's shifts, each with its document id, sorted by date
  ascending. \<open>Array.prototype.sort\<close> is stable: documents of equal date keep the order
  of the query. So does this insertion sort, which inserts from the right end and puts
  a document before the ones of equal date.
\<close>

fun insertByDate :: "string \<times> shift \<Rightarrow> (string \<times> shift) list \<Rightarrow> (string \<times> shift) list" where
  "insertByDate a [] = [a]"
| "insertByDate a (b # bs) =
     (if jsStrLess (date (snd b)) (date (snd a)) then b # insertByDate a bs else a # b # bs)"

definition sortByDate :: "(string \<times> shift) list \<Rightarrow> (string \<times> shift) list" where
  "sortByDate xs = foldr insertByDate xs []"

definition getShiftsForUser :: "database \<Rightarrow> string \<Rightarrow> (string \<times> shift) list" where
  "getShiftsForUser db uname = sortByDate (whereEq username uname (shifts db))"

text \<open>\<open>addEmployee\<close>; \<open>hashPassword\<close> (SHA-256 of the platform) is a parameter.\<close>

definition addEmployee :: "(string \<Rightarrow> string) \<Rightarrow> database \<Rightarrow> string \<Rightarrow> string \<Rightarrow> jsnum \<Rightarrow> database" where
  "addEmployee hashPassword db uname password rate =
     (let hash = hashPassword password
      in db\<lparr>users := doc_set (users db) uname
            \<lparr>userName = uname, role = ''employee'', hourlyRate = rate, passwordHash = hash\<rparr>\<rparr>)"

text \<open>
  The submit handler of the Add New Employee form in \<open>renderAdminDashboard\<close>: the
  only caller of \<open>addEmployee\<close>. \<open>newRate\<close> is what \<open>parseFloat\<close> made of the rate
  field.
\<close>

definition addFormSubmit :: "(string \<Rightarrow> string) \<Rightarrow> database \<Rightarrow> string \<Rightarrow> string \<Rightarrow> jsnum \<Rightarrow> failure option \<times> database" where
  "addFormSubmit hashPassword db newUsername newPassword newRate =
     (let uname = trim newUsername;
          pwd = newPassword;
          rate = newRate
      in if uname = [] \<or> pwd = [] then (Some MissingCredentials, db)
         else if doc_get (users db) uname \<noteq> None then (Some DuplicateUsername, db)
         else (None, addEmployee hashPassword db uname pwd rate))"

text \<open>\<open>deleteEmployee\<close>: the user document, then every shift the query returns.\<close>

fun deleteDocs :: "(string \<times> shift) list \<Rightarrow> database \<Rightarrow> database" where
  "deleteDocs [] db = db"
| "deleteDocs (doc # docs) db = deleteDocs docs (db\<lparr>shifts := doc_delete (shifts db) (fst doc)\<rparr>)"

definition deleteEmployee :: "database \<Rightarrow> string \<Rightarrow> database" where
  "deleteEmployee db uname =
     (let db1 = db\<lparr>users := doc_delete (users db) uname\<rparr>;
          docs = whereEq username uname (shifts db1)
      in deleteDocs docs db1)"

text \<open>
  \<open>punchIn\<close> and \<open>punchOut\<close>. \<open>now\<close> is the clock's time value when the call
  runs; the two readings of the clock in one call (for the day and for the time) are
  taken as one. The result is the alert shown, if any, and the database after the call.
\<close>

definition punchIn :: "int \<Rightarrow> int \<Rightarrow> database \<Rightarrow> string \<Rightarrow> failure option \<times> database" where
  "punchIn tz now db uname =
     (let date' = getISODateString tz now;
          docId = uname @ ''_'' @ date';
          doc = doc_get (shifts db) docId
      in if (case doc of None \<Rightarrow> False | Some data \<Rightarrow> timeIn data \<noteq> []) then
           (Some AlreadyPunchedIn, db)
         else
           (let iso = take 16 (toISOString now)
            in (None, db\<lparr>shifts := doc_set (shifts db) docId
                   \<lparr>username = uname, date = date', timeIn = iso, timeOut = [],
                    adjTimeIn = [], adjTimeOut = []\<rparr>\<rparr>)))"

definition punchOut :: "int \<Rightarrow> int \<Rightarrow> database \<Rightarrow> string \<Rightarrow> failure option \<times> database" where
  "punchOut tz now db uname =
     (let date' = getISODateString tz now;
          docId = uname @ ''_'' @ date';
          doc = doc_get (shifts db) docId
      in if (case doc of None \<Rightarrow> True | Some data \<Rightarrow> timeIn data = []) then
           (Some NotPunchedIn, db)
         else if (case doc of None \<Rightarrow> False | Some data \<Rightarrow> timeOut data \<noteq> []) then
           (Some AlreadyPunchedOut, db)
         else
           (let iso = take 16 (toISOString now)
            in case doc_update (shifts db) docId (\<lambda>d. d\<lparr>timeOut := iso\<rparr>) of
                 Inl err \<Rightarrow> (Some err, db)
               | Inr shifts' \<Rightarrow> (None, db\<lparr>shifts := shifts'\<rparr>)))"

text \<open>
  The write that the Save Adjustments handler of the admin view makes for one shift row
  of the table: one \<open>update\<close> of the two adjustment fields with the values of the row's
  two inputs. \<open>update\<close> throws when the document is not there.
\<close>

definition saveAdjustmentRow :: "database \<Rightarrow> string \<Rightarrow> string \<Rightarrow> string \<Rightarrow> failure option \<times> database" where
  "saveAdjustmentRow db docId adjInVal adjOutVal =
     (case doc_update (shifts db) docId
             (\<lambda>d. d\<lparr>adjTimeIn := jsOr adjInVal [], adjTimeOut := jsOr adjOutVal []\<rparr>) of
        Inl err \<Rightarrow> (Some err, db)
      | Inr shifts' \<Rightarrow> (None, db\<lparr>shifts := shifts'\<rparr>))"

section \<open>app.js: the pay period\<close>

text \<open>
  The current period of the employee dashboard. The two dates are strings the program
  wrote itself, \<open>YYYY-MM-DD\<close>, read by \<open>newDate\<close>. Their time values are whole days,
  so the quotient by the milliseconds of a day is exact, and \<open>Math.floor\<close> of a
  quotient of integers by a positive integer is \<open>div\<close>. Where a Date is invalid,
  \<open>toISOString\<close> throws; that is \<open>None\<close>.
\<close>

definition currentIndex :: "int \<Rightarrow> string \<Rightarrow> string \<Rightarrow> int option" where
  "currentIndex tz payPeriodStartDate today =
     (case (newDate tz payPeriodStartDate, newDate tz today) of
        (Some baseStart, Some todayDate) \<Rightarrow>
          (let diffDays = (todayDate - baseStart) div (1000 * 60 * 60 * 24)
           in Some (diffDays div 14))
      | _ \<Rightarrow> None)"

definition periodRange :: "int \<Rightarrow> string \<Rightarrow> int \<Rightarrow> (string \<times> string) option" where
  "periodRange tz payPeriodStartDate idx =
     (case newDate tz payPeriodStartDate of
        None \<Rightarrow> None
      | Some baseStart \<Rightarrow>
          (let periodStart = setDatePlus baseStart (idx * 14);
               periodEnd = setDatePlus periodStart 13;
               periodStartISO = getISODateString tz periodStart;
               periodEndISO = getISODateString tz periodEnd
           in Some (periodStartISO, periodEndISO)))"

definition currentPeriod :: "int \<Rightarrow> string \<Rightarrow> string \<Rightarrow> (int \<times> string \<times> string) option" where
  "currentPeriod tz payPeriodStartDate today =
     (case currentIndex tz payPeriodStartDate today of
        None \<Rightarrow> None
      | Some idx \<Rightarrow>
          (case periodRange tz payPeriodStartDate idx of
             None \<Rightarrow> None
           | Some (periodStartISO, periodEndISO) \<Rightarrow> Some (idx, periodStartISO, periodEndISO)))"

text \<open>The test that keeps a shift in the table: its date is within the period.\<close>

definition inPeriod :: "string \<Rightarrow> string \<Rightarrow> string \<Rightarrow> bool" where
  "inPeriod periodStartISO periodEndISO d =
     (\<not> jsStrLess d periodStartISO \<and> \<not> jsStrLess periodEndISO d)"

section \<open>app.js: the shift table\<close>

text \<open>The start and the end that hours and pay are computed from.\<close>

definition actualStartStr :: "shift \<Rightarrow> string" where
  "actualStartStr shift =
     (let startTimeStr = jsOr (timeIn shift) [];
          adjInStr = jsOr (adjTimeIn shift) []
      in jsOr adjInStr startTimeStr)"

definition actualEndStr :: "shift \<Rightarrow> string" where
  "actualEndStr shift =
     (let endTimeStr = jsOr (timeOut shift) [];
          adjOutStr = jsOr (adjTimeOut shift) []
      in jsOr adjOutStr endTimeStr)"

text \<open>
  A row of the table as data: the document id and date, the four time strings shown,
  and the two numbers shown. The loop of \<open>updateTable\<close> appends one row for each shift
  of the period and keeps the running totals. \<open>rate\<close> is \<open>userData.hourlyRate\<close>, any
  number.
\<close>

record tableRow =
  rowDocId :: string
  rowDate :: string
  rowTimeIn :: string
  rowAdjIn :: string
  rowTimeOut :: string
  rowAdjOut :: string
  hours :: jsnum
  pay :: jsnum

definition mkRow :: "shift \<Rightarrow> jsnum \<Rightarrow> jsnum \<Rightarrow> tableRow" where
  "mkRow shift h p =
     \<lparr>rowDocId = username shift @ ''_'' @ date shift, rowDate = date shift,
      rowTimeIn = jsOr (timeIn shift) [], rowAdjIn = jsOr (adjTimeIn shift) [],
      rowTimeOut = jsOr (timeOut shift) [], rowAdjOut = jsOr (adjTimeOut shift) [],
      hours = h, pay = p\<rparr>"

fun tableLoop :: "(string \<Rightarrow> int option) \<Rightarrow> jsnum \<Rightarrow> shift list \<Rightarrow> tableRow list \<times> jsnum \<times> jsnum \<Rightarrow> tableRow list \<times> jsnum \<times> jsnum" where
  "tableLoop parse rate [] acc = acc"
| "tableLoop parse rate (shift # rest) (tbody, totalHours, totalPay) =
     (if actualStartStr shift \<noteq> [] \<and> actualEndStr shift \<noteq> [] then
        (let hours' = computeHours parse (actualStartStr shift) (actualEndStr shift);
             pay' = jsDivBy (jsMathRound (jsMul (jsMul hours' rate) (Fin 100))) 100
         in tableLoop parse rate rest
              (tbody @ [mkRow shift hours' pay'], jsAdd totalHours hours', jsAdd totalPay pay'))
      else tableLoop parse rate rest (tbody @ [mkRow shift (Fin 0) (Fin 0)], totalHours, totalPay))"

text \<open>
  \<open>updateTable\<close> of the admin view, without the rendering: the rows, the two totals and
  the two navigation flags.
\<close>

definition updateTable :: "int \<Rightarrow> (string \<Rightarrow> int option) \<Rightarrow> database \<Rightarrow> string \<Rightarrow> jsnum \<Rightarrow> string \<Rightarrow> int \<Rightarrow> (tableRow list \<times> jsnum \<times> jsnum \<times> bool \<times> bool) option" where
  "updateTable tz parse db payPeriodStartDate rate uname currentPeriodIndex =
     (let shifts' = map snd (getShiftsForUser db uname)
      in case periodRange tz payPeriodStartDate currentPeriodIndex of
           None \<Rightarrow> None
         | Some (periodStartISO, periodEndISO) \<Rightarrow>
             (let periodShifts = filter (\<lambda>s. inPeriod periodStartISO periodEndISO (date s)) shifts';
                  (tbody, totalHours, totalPay) = tableLoop parse rate periodShifts ([], Fin 0, Fin 0);
                  hasNext = list_ex (\<lambda>s. jsStrLess periodEndISO (date s)) shifts';
                  hasPrev = list_ex (\<lambda>s. jsStrLess (date s) periodStartISO) shifts'
              in Some (tbody, totalHours, totalPay, hasNext, hasPrev)))"

section \<open>The two rounding policies, in whole cents\<close>

text \<open>
  A row's amount is the number the loop passes to \<open>Math.round\<close>: hours times rate
  times 100, the pay in cents before rounding. The program rounds each row's amount
  and sums the results. The spec's other policy keeps an unrounded running aggregate,
  the sum of the amounts, and rounds that once.
\<close>

definition rowAmount :: "jsnum \<Rightarrow> tableRow \<Rightarrow> jsnum" where
  "rowAmount rate r = jsMul (jsMul (hours r) rate) (Fin 100)"

definition roundedRowsCents :: "rat list \<Rightarrow> int" where
  "roundedRowsCents amounts = sum_list (map jsRound amounts)"

definition roundedAggregateCents :: "rat list \<Rightarrow> int" where
  "roundedAggregateCents amounts = jsRound (sum_list amounts)"

text \<open>The rows that enter the totals: those of the shifts with both ends.\<close>

definition countedRows :: "shift list \<Rightarrow> tableRow list \<Rightarrow> tableRow list" where
  "countedRows periodShifts tbody =
     map snd (filter (\<lambda>(sh, r). actualStartStr sh \<noteq> [] \<and> actualEndStr sh \<noteq> [])
                     (zip periodShifts tbody))"

section \<open>Example data\<close>

definition dayShift :: shift where
  "dayShift =
     \<lparr>username = ''alice'', date = ''2025-08-02'', timeIn = ''2025-08-02T09:00'',
      timeOut = ''2025-08-02T17:15'', adjTimeIn = [], adjTimeOut = []\<rparr>"

text \<open>A quarter of an hour worked by bob on the given day.\<close>

definition quarterHour :: "string \<Rightarrow> shift" where
  "quarterHour d =
     \<lparr>username = ''bob'', date = d, timeIn = d @ ''T09:00'', timeOut = d @ ''T09:15'',
      adjTimeIn = [], adjTimeOut = []\<rparr>"

definition fourQuarterHours :: "shift list" where
  "fourQuarterHours =
     map quarterHour [''2025-08-04'', ''2025-08-05'', ''2025-08-06'', ''2025-08-07'']"

text \<open>A shift that was started and not ended, and one with an adjusted start.\<close>

definition openShift :: shift where
  "openShift =
     \<lparr>username = ''alice'', date = ''2025-08-03'', timeIn = ''2025-08-03T09:00'',
      timeOut = [], adjTimeIn = [], adjTimeOut = []\<rparr>"

definition adjustedShift :: shift where
  "adjustedShift = dayShift\<lparr>adjTimeIn := ''2025-08-02T10:00''\<rparr>"

text \<open>A database with an administrator, two employees and three shifts.\<close>

definition exampleDb :: database where
  "exampleDb =
     \<lparr>users =
        [(''admin'', \<lparr>userName = ''admin'', role = ''admin'', hourlyRate = Fin 0, passwordHash = ''h0''\<rparr>),
         (''alice'', \<lparr>userName = ''alice'', role = ''employee'', hourlyRate = Fin 20, passwordHash = ''h1''\<rparr>),
         (''bob'', \<lparr>userName = ''bob'', role = ''employee'', hourlyRate = Fin 22, passwordHash = ''h2''\<rparr>)],
      shifts =
        [(''alice_2025-08-02'', dayShift),
         (''bob_2025-08-04'', quarterHour ''2025-08-04''),
         (''alice_2025-08-03'', openShift)],
      settings = [(''config'', \<lparr>payPeriodStart = ''2025-08-01''\<rparr>)]\<rparr>"

section \<open>Properties of the number model\<close>

lemma roundHalfEven_err: "\<bar>of_int (roundHalfEven q) - q\<bar> \<le> (1 / 2 :: rat)"
proof -
  have f: "of_int \<lfloor>q\<rfloor> \<le> q" "q < of_int \<lfloor>q\<rfloor> + 1"
    by linarith+
  show ?thesis
    using f by (auto simp: roundHalfEven_def Let_def)
qed

lemma jsRound_err: "\<bar>of_int (jsRound y) - y\<bar> \<le> (1 / 2 :: rat)"
  unfolding jsRound_def by linarith

lemma int_abs_lt_1: "\<bar>(of_int m :: rat)\<bar> < 1 \<Longrightarrow> m = 0"
proof -
  assume "\<bar>(of_int m :: rat)\<bar> < 1"
  then have "(of_int (- 1) :: rat) < of_int m" "(of_int m :: rat) < of_int 1"
    by simp_all
  then have "- 1 < m" "m < 1"
    by (simp_all only: of_int_less_iff)
  then show ?thesis by simp
qed

lemma roundHalfEven_of_int: "roundHalfEven (of_int k) = k"
proof -
  have "\<bar>of_int (roundHalfEven (of_int k)) - (of_int k :: rat)\<bar> \<le> 1 / 2"
    by (rule roundHalfEven_err)
  then have "\<bar>(of_int (roundHalfEven (of_int k) - k) :: rat)\<bar> < 1"
    by simp
  then have "roundHalfEven (of_int k) - k = 0"
    by (rule int_abs_lt_1)
  then show ?thesis by simp
qed

lemma roundHalfEven_nonneg: "0 \<le> q \<Longrightarrow> 0 \<le> roundHalfEven q"
proof -
  assume "0 \<le> q"
  moreover have "\<bar>of_int (roundHalfEven q) - q\<bar> \<le> 1 / 2" by (rule roundHalfEven_err)
  ultimately have "(- 1 :: rat) < of_int (roundHalfEven q)" by linarith
  then have "(of_int (- 1) :: rat) < of_int (roundHalfEven q)" by simp
  then have "- 1 < roundHalfEven q" by (simp only: of_int_less_iff)
  then show ?thesis by simp
qed

lemma roundHalfEven_nonpos: "q \<le> 0 \<Longrightarrow> roundHalfEven q \<le> 0"
proof -
  assume "q \<le> 0"
  moreover have "\<bar>of_int (roundHalfEven q) - q\<bar> \<le> 1 / 2" by (rule roundHalfEven_err)
  ultimately have "(of_int (roundHalfEven q) :: rat) < 1" by linarith
  then have "(of_int (roundHalfEven q) :: rat) < of_int 1" by simp
  then have "roundHalfEven q < 1" by (simp only: of_int_less_iff)
  then show ?thesis by simp
qed

lemma roundHalfEven_bound: "\<bar>(of_int (roundHalfEven q) :: rat)\<bar> \<le> 2 * \<bar>q\<bar>"
proof (cases "\<bar>q\<bar> < 1 / 2")
  case True
  have "\<bar>of_int (roundHalfEven q) - q\<bar> \<le> 1 / 2" by (rule roundHalfEven_err)
  with True have "\<bar>(of_int (roundHalfEven q) :: rat)\<bar> < 1" by linarith
  then have "roundHalfEven q = 0" by (rule int_abs_lt_1)
  then show ?thesis by simp
next
  case False
  have "\<bar>of_int (roundHalfEven q) - q\<bar> \<le> 1 / 2" by (rule roundHalfEven_err)
  with False show ?thesis by linarith
qed

lemma ilog2_bounds:
  assumes "0 < x"
  shows "power_int 2 (ilog2 x) \<le> x \<and> x < power_int 2 (ilog2 x + 1)"
proof -
  obtain p q where pq: "quotient_of x = (p, q)" by (cases "quotient_of x")
  have q: "0 < q" using pq by (rule quotient_of_denom_pos)
  have x: "x = of_int p / of_int q" using pq by (rule quotient_of_div)
  have p: "0 < p" using assms q by (simp add: x zero_less_divide_iff)
  define bp where "bp = bitlen p"
  define bq where "bq = bitlen q"
  have bp1: "1 \<le> bp" and bq1: "1 \<le> bq"
    using p q by (simp_all add: bp_def bq_def bitlen_alt_def)
  have Bp: "2 ^ nat (bp - 1) \<le> p" "p < 2 ^ nat bp"
    using bitlen_bounds [OF p] by (simp_all add: bp_def)
  have Bq: "2 ^ nat (bq - 1) \<le> q" "q < 2 ^ nat bq"
    using bitlen_bounds [OF q] by (simp_all add: bq_def)
  have rp: "(2 :: rat) ^ nat (bp - 1) \<le> of_int p" "(of_int p :: rat) < 2 ^ nat bp"
    using Bp by (metis of_int_le_iff of_int_numeral of_int_power, metis of_int_less_iff of_int_numeral of_int_power)
  have rq: "(2 :: rat) ^ nat (bq - 1) \<le> of_int q" "(of_int q :: rat) < 2 ^ nat bq"
    using Bq by (metis of_int_le_iff of_int_numeral of_int_power, metis of_int_less_iff of_int_numeral of_int_power)
  have qpos: "(0 :: rat) < of_int q" using q by simp
  have e1: "power_int (2 :: rat) (bp - bq - 1) = 2 ^ nat (bp - 1) / 2 ^ nat bq"
  proof -
    have "power_int (2 :: rat) (bp - bq - 1) = power_int 2 ((bp - 1) - bq)" by (simp add: algebra_simps)
    also have "\<dots> = power_int 2 (bp - 1) / power_int 2 bq" by (rule power_int_diff) simp
    also have "\<dots> = 2 ^ nat (bp - 1) / 2 ^ nat bq"
      using bp1 bq1 by (simp add: power_int_def)
    finally show ?thesis .
  qed
  have e2: "power_int (2 :: rat) (bp - bq + 1) = 2 ^ nat bp / 2 ^ nat (bq - 1)"
  proof -
    have "power_int (2 :: rat) (bp - bq + 1) = power_int 2 (bp - (bq - 1))" by (simp add: algebra_simps)
    also have "\<dots> = power_int 2 bp / power_int 2 (bq - 1)" by (rule power_int_diff) simp
    also have "\<dots> = 2 ^ nat bp / 2 ^ nat (bq - 1)"
      using bp1 bq1 by (simp add: power_int_def)
    finally show ?thesis .
  qed
  have lo: "power_int 2 (bp - bq - 1) < x"
  proof -
    have "(2 :: rat) ^ nat (bp - 1) / 2 ^ nat bq < of_int p / of_int q"
      using rp(1) rq(2) qpos by (intro frac_less2) simp_all
    then show ?thesis by (simp only: e1 x)
  qed
  have hi: "x < power_int 2 (bp - bq + 1)"
  proof -
    have "of_int p / of_int q < (2 :: rat) ^ nat bp / 2 ^ nat (bq - 1)"
      using rp(2) rq(1) p by (intro frac_less) simp_all
    then show ?thesis by (simp only: e2 x)
  qed
  have def: "ilog2 x = (if power_int 2 (bp - bq) \<le> x then bp - bq else bp - bq - 1)"
    by (simp add: ilog2_def pq bp_def bq_def Let_def)
  show ?thesis
  proof (cases "power_int 2 (bp - bq) \<le> x")
    case True
    then show ?thesis using hi by (simp add: def)
  next
    case False
    then show ?thesis using lo by (simp add: def)
  qed
qed

lemma roundToDouble_zero: "roundToDouble 0 = 0"
  by (simp add: roundToDouble_def)

lemma roundToDouble_nonneg: "0 \<le> x \<Longrightarrow> 0 \<le> roundToDouble x"
proof (cases "x = 0")
  case True
  then show ?thesis by (simp add: roundToDouble_def)
next
  case False
  assume "0 \<le> x"
  then have "0 \<le> roundHalfEven (x / power_int 2 (max (ilog2 \<bar>x\<bar> - 52) (- 1074)))"
    by (intro roundHalfEven_nonneg) simp
  then show ?thesis using False by (simp add: roundToDouble_def Let_def)
qed

lemma roundToDouble_bound: "\<bar>roundToDouble x\<bar> \<le> 2 * \<bar>x\<bar>"
proof (cases "x = 0")
  case True
  then show ?thesis by (simp add: roundToDouble_def)
next
  case False
  define P :: rat where "P = power_int 2 (max (ilog2 \<bar>x\<bar> - 52) (- 1074))"
  have P: "0 < P" by (simp add: P_def)
  have "\<bar>(of_int (roundHalfEven (x / P)) :: rat)\<bar> \<le> 2 * \<bar>x / P\<bar>"
    by (rule roundHalfEven_bound)
  then have "\<bar>(of_int (roundHalfEven (x / P)) :: rat)\<bar> * P \<le> 2 * \<bar>x / P\<bar> * P"
    using P by (intro mult_right_mono) simp_all
  then have "\<bar>of_int (roundHalfEven (x / P)) * P\<bar> \<le> 2 * \<bar>x\<bar>"
    using P by (simp add: abs_mult)
  then show ?thesis using False by (simp add: roundToDouble_def Let_def P_def)
qed

lemma ilog2_less: "0 < y \<Longrightarrow> y < power_int 2 n \<Longrightarrow> ilog2 y < n"
proof (rule ccontr)
  assume y: "0 < y" "y < power_int 2 n" and "\<not> ilog2 y < n"
  then have "n \<le> ilog2 y" by simp
  then have "power_int (2 :: rat) n \<le> power_int 2 (ilog2 y)"
    by (intro power_int_increasing) simp_all
  also have "\<dots> \<le> y" using ilog2_bounds [OF y(1)] by simp
  finally show False using y(2) by simp
qed

lemma ilog2_ge: "0 < y \<Longrightarrow> power_int 2 n \<le> y \<Longrightarrow> n \<le> ilog2 y"
proof (rule ccontr)
  assume y: "0 < y" "power_int 2 n \<le> y" and "\<not> n \<le> ilog2 y"
  then have "ilog2 y + 1 \<le> n" by simp
  then have "power_int (2 :: rat) (ilog2 y + 1) \<le> power_int 2 n"
    by (intro power_int_increasing) simp_all
  moreover have "y < power_int 2 (ilog2 y + 1)" using ilog2_bounds [OF y(1)] by simp
  ultimately show False using y(2) by simp
qed

text \<open>A rational that is a whole multiple of its own unit in the last place is a double.\<close>

lemma roundToDouble_exact:
  assumes "x \<noteq> 0" and "x / power_int 2 (max (ilog2 \<bar>x\<bar> - 52) (- 1074)) = of_int j"
  shows "roundToDouble x = x"
proof -
  define P :: rat where "P = power_int 2 (max (ilog2 \<bar>x\<bar> - 52) (- 1074))"
  have P: "P \<noteq> 0" by (simp add: P_def)
  have j: "x / P = of_int j" using assms(2) by (simp add: P_def)
  then have x: "x = of_int j * P" using P by (simp add: field_simps)
  have "roundToDouble x = of_int (roundHalfEven (x / P)) * P"
    using assms(1) by (simp add: roundToDouble_def Let_def P_def)
  also have "\<dots> = of_int j * P" by (simp only: j roundHalfEven_of_int)
  finally show ?thesis using x by simp
qed

lemma power_int_neg_is_int: "e \<le> 0 \<Longrightarrow> (1 :: rat) / power_int 2 e = of_int (2 ^ nat (- e))"
  by (simp add: power_int_def field_simps)

lemma roundToDouble_of_int:
  assumes "\<bar>k\<bar> < 2 ^ 53"
  shows "roundToDouble (of_int k) = of_int k"
proof (cases "k = 0")
  case True
  then show ?thesis by (simp add: roundToDouble_def)
next
  case False
  define x :: rat where "x = of_int k"
  define e where "e = max (ilog2 \<bar>x\<bar> - 52) (- 1074)"
  have x0: "x \<noteq> 0" "0 < \<bar>x\<bar>" using False by (simp_all add: x_def)
  have "\<bar>x\<bar> < of_int (2 ^ 53)"
    unfolding x_def using assms by (simp only: of_int_abs [symmetric] of_int_less_iff)
  then have "\<bar>x\<bar> < power_int 2 53" by simp
  then have "ilog2 \<bar>x\<bar> < 53" using x0(2) by (intro ilog2_less)
  then have e: "e \<le> 0" by (simp add: e_def)
  have "x / power_int 2 e = of_int k * (1 / power_int 2 e)" by (simp add: x_def)
  also have "\<dots> = of_int (k * 2 ^ nat (- e))"
    by (simp only: power_int_neg_is_int [OF e] of_int_mult)
  finally have "x / power_int 2 e = of_int (k * 2 ^ nat (- e))" .
  then have "roundToDouble x = x"
    using x0(1) unfolding e_def by (intro roundToDouble_exact)
  then show ?thesis by (simp add: x_def)
qed

text \<open>An even integer of at most 54 bits is a double too.\<close>

lemma roundToDouble_of_even:
  assumes "\<bar>k\<bar> < 2 ^ 53"
  shows "roundToDouble (of_int (2 * k)) = of_int (2 * k)"
proof (cases "k = 0")
  case True
  then show ?thesis by (simp add: roundToDouble_def)
next
  case False
  define x :: rat where "x = of_int (2 * k)"
  define e where "e = max (ilog2 \<bar>x\<bar> - 52) (- 1074)"
  have x0: "x \<noteq> 0" "0 < \<bar>x\<bar>" using False by (simp_all add: x_def)
  have "\<bar>2 * k\<bar> < 2 ^ 54" using assms by simp
  then have "\<bar>x\<bar> < of_int (2 ^ 54)"
    unfolding x_def by (simp only: of_int_abs [symmetric] of_int_less_iff)
  then have "\<bar>x\<bar> < power_int 2 54" by simp
  then have "ilog2 \<bar>x\<bar> < 54" using x0(2) by (intro ilog2_less)
  then have e: "e \<le> 1" by (simp add: e_def)
  have "\<exists>j. x / power_int 2 e = of_int j"
  proof (cases "e \<le> 0")
    case True
    have "x / power_int 2 e = of_int (2 * k) * (1 / power_int 2 e)" by (simp add: x_def)
    also have "\<dots> = of_int (2 * k * 2 ^ nat (- e))"
      by (simp only: power_int_neg_is_int [OF True] of_int_mult)
    finally show ?thesis by blast
  next
    case False
    with e have "e = 1" by simp
    then have "x / power_int 2 e = of_int k" by (simp add: x_def)
    then show ?thesis by blast
  qed
  then obtain j where "x / power_int 2 e = of_int j" by blast
  then have "roundToDouble x = x"
    using x0(1) unfolding e_def by (intro roundToDouble_exact)
  then show ?thesis by (simp add: x_def)
qed

lemma roundToDouble_neg:
  assumes "x \<le> - 1"
  shows "roundToDouble x < 0"
proof -
  define e where "e = max (ilog2 \<bar>x\<bar> - 52) (- 1074)"
  define P :: rat where "P = power_int 2 e"
  have P: "0 < P" by (simp add: P_def)
  have ax: "0 < \<bar>x\<bar>" "1 \<le> \<bar>x\<bar>" using assms by simp_all
  have "power_int 2 0 \<le> \<bar>x\<bar>" using ax(2) by simp
  then have L: "0 \<le> ilog2 \<bar>x\<bar>" using ax(1) by (intro ilog2_ge)
  then have e: "e = ilog2 \<bar>x\<bar> - 52" by (simp add: e_def)
  have "power_int 2 (ilog2 \<bar>x\<bar>) \<le> \<bar>x\<bar>" using ilog2_bounds [OF ax(1)] by simp
  moreover have "P \<le> power_int 2 (ilog2 \<bar>x\<bar>)"
    unfolding P_def e by (intro power_int_increasing) simp_all
  ultimately have "P \<le> \<bar>x\<bar>" by simp
  then have "x / P \<le> - 1" using P assms by (simp add: field_simps)
  moreover have "\<bar>of_int (roundHalfEven (x / P)) - x / P\<bar> \<le> 1 / 2" by (rule roundHalfEven_err)
  ultimately have "(of_int (roundHalfEven (x / P)) :: rat) < 0" by linarith
  then have "of_int (roundHalfEven (x / P)) * P < 0" using P by (simp add: mult_less_0_iff)
  moreover have "x \<noteq> 0" using assms by auto
  ultimately show ?thesis by (simp add: roundToDouble_def Let_def P_def e_def)
qed

lemma toDouble_Fin: "2 * \<bar>x\<bar> < overflowBound \<Longrightarrow> toDouble x = Fin (roundToDouble x)"
  using roundToDouble_bound [of x] by (auto simp: toDouble_def Let_def)

lemma toDouble_zero: "toDouble 0 = Fin 0"
  by (simp add: toDouble_def roundToDouble_def overflowBound_def)

section \<open>Hours between two time strings\<close>

lemma roundToDouble_err:
  assumes "x \<noteq> 0"
  shows "\<bar>roundToDouble x - x\<bar> \<le> power_int 2 (max (ilog2 \<bar>x\<bar> - 52) (- 1074)) / 2"
proof -
  define P :: rat where "P = power_int 2 (max (ilog2 \<bar>x\<bar> - 52) (- 1074))"
  define A :: rat where "A = of_int (roundHalfEven (x / P))"
  have P: "0 < P" by (simp add: P_def)
  have "\<bar>A - x / P\<bar> \<le> 1 / 2" unfolding A_def by (rule roundHalfEven_err)
  then have 1: "\<bar>A - x / P\<bar> * P \<le> 1 / 2 * P"
    using P by (intro mult_right_mono) simp_all
  have "(A - x / P) * P = A * P - x"
    using P by (simp add: field_simps)
  then have 2: "\<bar>A - x / P\<bar> * P = \<bar>A * P - x\<bar>"
    using P by (metis abs_mult abs_of_pos)
  from 1 have "\<bar>A * P - x\<bar> \<le> 1 / 2 * P" by (simp only: 2)
  moreover have "roundToDouble x = A * P"
    using assms by (simp add: roundToDouble_def Let_def P_def A_def)
  ultimately show ?thesis by (simp add: P_def)
qed

lemma toDouble_Fin_small: "\<bar>x\<bar> \<le> 100000000000000000000 \<Longrightarrow> toDouble x = Fin (roundToDouble x)"
  by (rule toDouble_Fin) (simp add: overflowBound_def)

lemma jsRound_nonneg: "0 \<le> x \<Longrightarrow> 0 \<le> jsRound x"
  by (simp add: jsRound_def)

lemma jsRound_of_int: "jsRound (of_int k) = k"
  unfolding jsRound_def by linarith

lemma jsRound_le: "0 \<le> x \<Longrightarrow> (of_int (jsRound x) :: rat) \<le> x + 1 / 2"
  unfolding jsRound_def by linarith

text \<open>
  Dividing a whole number of milliseconds below \<open>2^53\<close> by 60000 in doubles and then rounding
  gives the same minute count as rounding the exact quotient.
\<close>

lemma jsRound_minutes:
  assumes "0 \<le> d" and "d < 2 ^ 53"
  shows "jsRound (roundToDouble (of_int d / 60000)) = jsRound (of_int d / 60000)"
proof (cases "d = 0")
  case True
  then show ?thesis by (simp add: roundToDouble_zero)
next
  case False
  define y :: rat where "y = of_int d / 60000"
  define e where "e = max (ilog2 \<bar>y\<bar> - 52) (- 1074)"
  define m where "m = (d + 30000) div 60000"
  define s where "s = (d + 30000) mod 60000"
  have d: "d = 60000 * m + s - 30000" and s: "0 \<le> s" "s < 60000"
    by (simp_all add: m_def s_def)
  have y0: "0 < y" "y \<noteq> 0" using False assms(1) by (simp_all add: y_def)
  have yhalf: "y + 1 / 2 = of_int m + of_int s / 60000"
    unfolding y_def by (subst d) (simp add: field_simps)
  have exact: "jsRound y = m"
    unfolding jsRound_def yhalf using s by (intro floor_unique) simp_all
  have "(of_int d :: rat) < of_int (2 ^ 53)" using assms(2) by (simp only: of_int_less_iff)
  then have "y < power_int 2 38" by (simp add: y_def)
  then have "ilog2 \<bar>y\<bar> < 38" using y0 by (intro ilog2_less) simp_all
  then have e: "e \<le> - 15" by (simp add: e_def)
  show ?thesis
  proof (cases "s = 0")
    case True
    have e1: "- (e + 1) \<ge> 0" using e by simp
    have "y = of_int (2 * m - 1) / 2" using yhalf True by (simp add: field_simps)
    then have "y / power_int 2 e = of_int (2 * m - 1) / (power_int 2 e * 2)"
      by (simp only: divide_divide_eq_left mult.commute)
    also have "power_int (2 :: rat) e * 2 = power_int 2 (e + 1)"
      by (simp add: power_int_add)
    finally have "y / power_int 2 e = of_int (2 * m - 1) * (1 / power_int 2 (e + 1))"
      by simp
    also have "\<dots> = of_int ((2 * m - 1) * 2 ^ nat (- (e + 1)))"
      using e by (simp only: power_int_neg_is_int of_int_mult)
    finally have "roundToDouble y = y"
      using y0(2) unfolding e_def by (intro roundToDouble_exact)
    then show ?thesis unfolding y_def by (rule arg_cong)
  next
    case False
    with s have s1: "1 \<le> s" by simp
    have "power_int (2 :: rat) e \<le> power_int 2 (- 15)"
      using e by (intro power_int_increasing) simp_all
    moreover have "power_int (2 :: rat) (- 15) = 1 / 32768"
      by (simp add: power_int_minus inverse_eq_divide)
    ultimately have P: "power_int (2 :: rat) e / 2 \<le> 1 / 65536" by linarith
    have "\<bar>roundToDouble y - y\<bar> \<le> power_int 2 e / 2"
      unfolding e_def by (rule roundToDouble_err [OF y0(2)])
    with P have err: "\<bar>roundToDouble y - y\<bar> \<le> 1 / 65536" by linarith
    have s': "(1 :: rat) / 60000 \<le> of_int s / 60000" "(of_int s :: rat) / 60000 \<le> 59999 / 60000"
      using s s1 by simp_all
    have "\<lfloor>roundToDouble y + 1 / 2\<rfloor> = m"
      using err yhalf s' by (intro floor_unique) linarith+
    then show ?thesis using exact by (simp add: jsRound_def y_def)
  qed
qed

lemma timeValue_bound: "timeValue parse s = Some a \<Longrightarrow> \<bar>a\<bar> \<le> 8640000000000000"
  by (auto simp: timeValue_def split: if_splits option.splits)

lemma timeValue_empty: "timeValue parse [] = None"
  by (simp add: timeValue_def)

lemma of_int_abs_le: "\<bar>k\<bar> \<le> n \<Longrightarrow> \<bar>(of_int k :: rat)\<bar> \<le> of_int n"
  by (simp only: of_int_abs [symmetric] of_int_le_iff)

lemma abs_le_twice: "\<bar>u\<bar> \<le> c \<Longrightarrow> \<bar>d\<bar> \<le> 2 * \<bar>u\<bar> \<Longrightarrow> \<bar>d\<bar> \<le> 2 * (c :: rat)"
  by linarith

lemma computeHours_Some:
  assumes "timeValue parse s = Some a" and "timeValue parse e = Some b"
  shows "computeHours parse s e =
           (if roundToDouble (of_int (b - a)) < 0 then Fin 0
            else toDouble (of_int (jsRound (roundToDouble (roundToDouble (of_int (b - a)) / 60000))) / 60))"
proof -
  have "\<bar>b - a\<bar> \<le> 17280000000000000"
    using timeValue_bound [OF assms(1)] timeValue_bound [OF assms(2)] by simp
  then have ab: "\<bar>(of_int (b - a) :: rat)\<bar> \<le> 17280000000000000"
    using of_int_abs_le [of "b - a" 17280000000000000] by simp
  then have sub: "toDouble (of_int b - of_int a) = Fin (roundToDouble (of_int (b - a)))"
    using toDouble_Fin_small [of "of_int (b - a)"] by simp
  have "\<bar>roundToDouble (of_int (b - a))\<bar> \<le> 2 * \<bar>(of_int (b - a) :: rat)\<bar>"
    by (rule roundToDouble_bound)
  with ab have "\<bar>roundToDouble (of_int (b - a)) / 60000\<bar> \<le> 100000000000000000000"
    by simp
  then have dv: "toDouble (roundToDouble (of_int (b - a)) / 60000)
                   = Fin (roundToDouble (roundToDouble (of_int (b - a)) / 60000))"
    by (rule toDouble_Fin_small)
  show ?thesis
    using assms sub dv
    by (simp add: computeHours_def jsSub_def jsNeg_def jsIsNaN_def jsNegative_def
        jsDivBy_def jsMathRound_def Let_def)
qed

lemma computeHours_None:
  "timeValue parse s = None \<or> timeValue parse e = None \<Longrightarrow> computeHours parse s e = Fin 0"
  by (auto simp: computeHours_def split: option.splits)

lemma computeHours_before:
  assumes "timeValue parse s = Some a" and "timeValue parse e = Some b" and "b < a"
  shows "computeHours parse s e = Fin 0"
proof -
  have "b - a \<le> - 1" using assms(3) by simp
  then have "(of_int (b - a) :: rat) \<le> of_int (- 1)" by (simp only: of_int_le_iff)
  then have "(of_int (b - a) :: rat) \<le> - 1" by simp
  then have "roundToDouble (of_int (b - a)) < 0" by (rule roundToDouble_neg)
  then show ?thesis by (simp add: computeHours_Some [OF assms(1,2)])
qed

lemma computeHours_after:
  assumes "timeValue parse s = Some a" and "timeValue parse e = Some b" and "a \<le> b"
  shows "computeHours parse s e =
           toDouble (of_int (jsRound (roundToDouble (roundToDouble (of_int (b - a)) / 60000))) / 60)"
proof -
  have "0 \<le> roundToDouble (of_int (b - a))" using assms(3) by (intro roundToDouble_nonneg) simp
  then show ?thesis by (simp add: computeHours_Some [OF assms(1,2)])
qed

lemma computeHours_rounds:
  assumes "timeValue parse s = Some a" and "timeValue parse e = Some b" and "a \<le> b"
    and "b - a < 2 ^ 53"
  shows "computeHours parse s e = toDouble (of_int (jsRound (of_int (b - a) / 60000)) / 60)"
proof -
  have "\<bar>b - a\<bar> < 2 ^ 53" using assms(3,4) by simp
  then have "roundToDouble (of_int (b - a)) = of_int (b - a)" by (rule roundToDouble_of_int)
  moreover have "jsRound (roundToDouble (of_int (b - a) / 60000)) = jsRound (of_int (b - a) / 60000)"
    using assms(3,4) by (intro jsRound_minutes) simp_all
  ultimately show ?thesis by (simp add: computeHours_after [OF assms(1,2,3)])
qed

lemma computeHours_minutes:
  assumes "timeValue parse s = Some (60000 * m)" and "timeValue parse e = Some (60000 * n)"
    and "m \<le> n"
  shows "computeHours parse s e = toDouble (of_int (n - m) / 60)"
proof -
  have bm: "\<bar>60000 * m\<bar> \<le> 8640000000000000" and bn: "\<bar>60000 * n\<bar> \<le> 8640000000000000"
    using timeValue_bound [OF assms(1)] timeValue_bound [OF assms(2)] by simp_all
  have k: "\<bar>30000 * (n - m)\<bar> < 2 ^ 53" using bm bn by simp
  have "roundToDouble (of_int (2 * (30000 * (n - m)))) = of_int (2 * (30000 * (n - m)))"
    using k by (rule roundToDouble_of_even)
  then have 1: "roundToDouble (of_int (60000 * n - 60000 * m)) = of_int (60000 * (n - m))"
    by (simp add: algebra_simps)
  have "\<bar>n - m\<bar> < 2 ^ 53" using bm bn by simp
  then have 2: "roundToDouble (of_int (n - m)) = of_int (n - m)" by (rule roundToDouble_of_int)
  have "60000 * m \<le> 60000 * n" using assms(3) by simp
  from computeHours_after [OF assms(1,2) this] show ?thesis
    by (simp only: 1 of_int_mult of_int_numeral nonzero_mult_div_cancel_left 2 jsRound_of_int)
qed

lemma computeHours_nonneg: "\<exists>h. computeHours parse s e = Fin h \<and> 0 \<le> h"
proof (cases "\<exists>a b. timeValue parse s = Some a \<and> timeValue parse e = Some b \<and> a \<le> b")
  case True
  then obtain a b where ab: "timeValue parse s = Some a" "timeValue parse e = Some b" "a \<le> b"
    by blast
  define d :: rat where "d = roundToDouble (of_int (b - a))"
  define k where "k = jsRound (roundToDouble (d / 60000))"
  have "\<bar>b - a\<bar> \<le> 17280000000000000"
    using timeValue_bound [OF ab(1)] timeValue_bound [OF ab(2)] by simp
  then have "\<bar>(of_int (b - a) :: rat)\<bar> \<le> 17280000000000000"
    using of_int_abs_le [of "b - a" 17280000000000000] by simp
  moreover have "\<bar>d\<bar> \<le> 2 * \<bar>(of_int (b - a) :: rat)\<bar>" unfolding d_def by (rule roundToDouble_bound)
  ultimately have dB: "\<bar>d\<bar> \<le> 34560000000000000" by (rule abs_le_twice [THEN order_trans]) simp
  have d0: "0 \<le> d" unfolding d_def using ab(3) by (intro roundToDouble_nonneg) simp
  have r0: "0 \<le> roundToDouble (d / 60000)" using d0 by (intro roundToDouble_nonneg) simp
  have "\<bar>roundToDouble (d / 60000)\<bar> \<le> 2 * \<bar>d / 60000\<bar>" by (rule roundToDouble_bound)
  with dB have rB: "roundToDouble (d / 60000) \<le> 1152000000000" by simp
  have k0: "0 \<le> k" unfolding k_def using r0 by (rule jsRound_nonneg)
  have "(of_int k :: rat) \<le> roundToDouble (d / 60000) + 1 / 2"
    unfolding k_def using r0 by (rule jsRound_le)
  with rB k0 have "\<bar>(of_int k :: rat) / 60\<bar> \<le> 100000000000000000000" by simp
  then have "toDouble (of_int k / 60) = Fin (roundToDouble (of_int k / 60))"
    by (rule toDouble_Fin_small)
  moreover have "0 \<le> roundToDouble (of_int k / 60)" using k0 by (intro roundToDouble_nonneg) simp
  ultimately show ?thesis
    using computeHours_after [OF ab] by (simp add: d_def k_def)
next
  case False
  then have "computeHours parse s e = Fin 0"
    using computeHours_None [of parse s e] computeHours_before [of parse s _ e]
    by (cases "timeValue parse s"; cases "timeValue parse e") (auto simp: not_le)
  then show ?thesis by simp
qed

text \<open>
  C1. \<open>computeHours\<close> has no failing branch and its result is a finite number that is
  never negative, whatever the engine's \<open>Date.parse\<close> answers. When both strings have
  time values \<open>a \<le> b\<close> (less than \<open>2^53\<close> milliseconds apart, some 285000 years), the result
  is the elapsed milliseconds divided by 60000, rounded to a whole number of minutes, and only
  then divided by 60, the quotient being the nearest double. For two minute-precision time
  values, \<open>60000 * m\<close> and \<open>60000 * n\<close>, that is the double nearest to \<open>(n - m) / 60\<close>.
  When the end precedes the start, or either string is empty or has no time value, the result
  is 0.
\<close>

theorem C1_computeHours:
  "(timeValue parse s = Some a \<and> timeValue parse e = Some b \<and> a \<le> b \<and> b - a < 2 ^ 53 \<longrightarrow>
      computeHours parse s e = toDouble (of_int (jsRound (of_int (b - a) / 60000)) / 60))
   \<and> (timeValue parse s = Some (60000 * m) \<and> timeValue parse e = Some (60000 * n) \<and> m \<le> n \<longrightarrow>
      computeHours parse s e = toDouble (of_int (n - m) / 60))
   \<and> (timeValue parse s = Some a \<and> timeValue parse e = Some b \<and> b < a \<longrightarrow>
      computeHours parse s e = Fin 0)
   \<and> (timeValue parse s = None \<or> timeValue parse e = None \<longrightarrow> computeHours parse s e = Fin 0)
   \<and> computeHours parse [] e = Fin 0 \<and> computeHours parse s [] = Fin 0
   \<and> (\<exists>h. computeHours parse s e = Fin h \<and> 0 \<le> h)"
  using computeHours_rounds [of parse s a e b] computeHours_minutes [of parse s m e n]
    computeHours_before [of parse s a e b] computeHours_None [of parse s e]
    computeHours_None [of parse "[]" e] computeHours_None [of parse s "[]"]
    computeHours_nonneg [of parse s e] timeValue_empty [of parse]
  by blast

theorem C1_computeHours_witness:
  "computeHours (dateParse 300) ''2025-08-02T09:00:00'' ''2025-08-02T17:15:30'' = toDouble (496 / 60)
   \<and> computeHours (dateParse 300) ''2025-08-02T09:00'' ''2025-08-02T17:15'' = Fin (33 / 4)
   \<and> computeHours (dateParse 300) ''2025-08-02T17:15'' ''2025-08-02T09:00'' = Fin 0
   \<and> computeHours (dateParse 300) ''not a date'' ''2025-08-02T17:15'' = Fin 0
   \<and> computeHours (dateParse 300) [] ''2025-08-02T17:15'' = Fin 0"
proof -
  have s1: "timeValue (dateParse 300) ''2025-08-02T09:00:00'' = Some 1754143200000"
    by code_simp
  have e1: "timeValue (dateParse 300) ''2025-08-02T17:15:30'' = Some 1754172930000"
    by code_simp
  have s2: "timeValue (dateParse 300) ''2025-08-02T09:00'' = Some (60000 * 29235720)"
    by code_simp
  have e2: "timeValue (dateParse 300) ''2025-08-02T17:15'' = Some (60000 * 29236215)"
    by code_simp
  have e3: "timeValue (dateParse 300) ''2025-08-02T17:15'' = Some 1754172900000"
    by code_simp
  have s3: "timeValue (dateParse 300) ''2025-08-02T09:00'' = Some 1754143200000"
    by code_simp
  have n: "timeValue (dateParse 300) ''not a date'' = None"
    by code_simp
  have r: "jsRound (of_int (1754172930000 - 1754143200000) / 60000) = 496"
    by code_simp
  have d: "toDouble (of_int (29236215 - 29235720) / 60) = Fin (33 / 4)"
    by code_simp
  have "computeHours (dateParse 300) ''2025-08-02T09:00:00'' ''2025-08-02T17:15:30''
          = toDouble (of_int (jsRound (of_int (1754172930000 - 1754143200000) / 60000)) / 60)"
    using C1_computeHours [of "dateParse 300" "''2025-08-02T09:00:00''" 1754143200000
        "''2025-08-02T17:15:30''" 1754172930000] s1 e1
    by simp
  then have 1: "computeHours (dateParse 300) ''2025-08-02T09:00:00'' ''2025-08-02T17:15:30''
          = toDouble (496 / 60)"
    by (simp only: r of_int_numeral)
  have "computeHours (dateParse 300) ''2025-08-02T09:00'' ''2025-08-02T17:15''
          = toDouble (of_int (29236215 - 29235720) / 60)"
    using C1_computeHours [of "dateParse 300" "''2025-08-02T09:00''" _
        "''2025-08-02T17:15''" _ 29235720 29236215] s2 e2
    by simp
  then have 2: "computeHours (dateParse 300) ''2025-08-02T09:00'' ''2025-08-02T17:15'' = Fin (33 / 4)"
    by (simp only: d)
  have 3: "computeHours (dateParse 300) ''2025-08-02T17:15'' ''2025-08-02T09:00'' = Fin 0"
    using C1_computeHours [of "dateParse 300" "''2025-08-02T17:15''" 1754172900000
        "''2025-08-02T09:00''" 1754143200000] s3 e3
    by simp
  have 4: "computeHours (dateParse 300) ''not a date'' ''2025-08-02T17:15'' = Fin 0"
    using C1_computeHours [of "dateParse 300" "''not a date''" _ "''2025-08-02T17:15''"] n
    by simp
  have 5: "computeHours (dateParse 300) [] ''2025-08-02T17:15'' = Fin 0"
    using C1_computeHours [of "dateParse 300" _ _ "''2025-08-02T17:15''"]
    by simp
  from 1 2 3 4 5 show ?thesis by (intro conjI)
qed

section \<open>Punching in and out\<close>

lemma toISOString_nonempty: "toISOString t \<noteq> []"
  by (simp add: toISOString_def Let_def split: prod.splits)

lemma toISOString_minutes_nonempty: "take 16 (toISOString t) \<noteq> []"
  by (simp add: toISOString_nonempty)

lemma doc_get_doc_set: "doc_get (doc_set c k v) k' = (if k' = k then Some v else doc_get c k')"
  by (simp add: doc_get_def doc_set_def update_conv')

lemma punchIn_guard:
  "doc_get (shifts db) (uname @ ''_'' @ getISODateString tz now) = Some sh \<Longrightarrow> timeIn sh \<noteq> [] \<Longrightarrow>
   punchIn tz now db uname = (Some AlreadyPunchedIn, db)"
  by (simp add: punchIn_def Let_def)

lemma punchIn_leaves_timeIn:
  "\<exists>sh. doc_get (shifts (snd (punchIn tz now db uname))) (uname @ ''_'' @ getISODateString tz now) = Some sh
        \<and> timeIn sh \<noteq> []"
proof (cases "case doc_get (shifts db) (uname @ ''_'' @ getISODateString tz now) of
                None \<Rightarrow> False | Some data \<Rightarrow> timeIn data \<noteq> []")
  case True
  then show ?thesis by (auto simp: punchIn_def Let_def split: option.splits)
next
  case False
  then show ?thesis
    by (simp add: punchIn_def Let_def doc_get_doc_set toISOString_nonempty)
qed

lemma doc_update_Some:
  "doc_get c k = Some old \<Longrightarrow> doc_update c k upd = Inr (AList.update k (upd old) c)"
  by (simp add: doc_get_def doc_update_def)

lemma punchOut_success:
  assumes "doc_get (shifts db) (uname @ ''_'' @ getISODateString tz now) = Some sh"
    and "timeIn sh \<noteq> []" and "timeOut sh = []"
  shows "punchOut tz now db uname =
    (None, db\<lparr>shifts := AList.update (uname @ ''_'' @ getISODateString tz now)
                           (sh\<lparr>timeOut := take 16 (toISOString now)\<rparr>) (shifts db)\<rparr>)"
  using assms by (simp add: punchOut_def Let_def doc_update_Some)



lemma update_keys_present:
  "map_of al k \<noteq> None \<Longrightarrow> map fst (AList.update k v al) = map fst al"
  by (induction al) (auto split: if_splits)

text \<open>
  C4. When the shift document of the user and the day exists with \<open>timeIn\<close> set,
  \<open>punchIn\<close> shows the already-punched-in alert and returns the database as it was.
  Hence the second of two \<open>punchIn\<close> calls of one user on one calendar day always
  ends that way and changes nothing, whether the first call wrote the document or
  found it.
\<close>

theorem C4_punchIn_already_punched_in:
  "(doc_get (shifts db) (uname @ ''_'' @ getISODateString tz now) = Some sh \<and> timeIn sh \<noteq> [] \<longrightarrow>
      punchIn tz now db uname = (Some AlreadyPunchedIn, db))
   \<and> (getISODateString tz later = getISODateString tz now \<longrightarrow>
      punchIn tz later (snd (punchIn tz now db uname)) uname
        = (Some AlreadyPunchedIn, snd (punchIn tz now db uname)))"
proof -
  have a: "doc_get (shifts db) (uname @ ''_'' @ getISODateString tz now) = Some sh \<and> timeIn sh \<noteq> [] \<longrightarrow>
      punchIn tz now db uname = (Some AlreadyPunchedIn, db)"
    using punchIn_guard by blast
  have b: "getISODateString tz later = getISODateString tz now \<longrightarrow>
      punchIn tz later (snd (punchIn tz now db uname)) uname
        = (Some AlreadyPunchedIn, snd (punchIn tz now db uname))"
  proof
    assume same: "getISODateString tz later = getISODateString tz now"
    obtain sh' where
      "doc_get (shifts (snd (punchIn tz now db uname))) (uname @ ''_'' @ getISODateString tz now) = Some sh'"
      and t: "timeIn sh' \<noteq> []"
      using punchIn_leaves_timeIn by blast
    then have "doc_get (shifts (snd (punchIn tz now db uname))) (uname @ ''_'' @ getISODateString tz later) = Some sh'"
      by (simp only: same)
    then show "punchIn tz later (snd (punchIn tz now db uname)) uname
        = (Some AlreadyPunchedIn, snd (punchIn tz now db uname))"
      using t by (rule punchIn_guard)
  qed
  show ?thesis using a b by blast
qed

theorem C4_punchIn_already_punched_in_witness:
  "punchIn 300 1754258400000 exampleDb ''alice'' = (Some AlreadyPunchedIn, exampleDb)
   \<and> fst (punchIn 300 1754258400000 exampleDb ''bob'') = None
   \<and> punchIn 300 1754258460000 (snd (punchIn 300 1754258400000 exampleDb ''bob'')) ''bob''
       = (Some AlreadyPunchedIn, snd (punchIn 300 1754258400000 exampleDb ''bob''))"
proof -
  have d: "getISODateString 300 1754258400000 = ''2025-08-03''"
    and d2: "getISODateString 300 1754258460000 = ''2025-08-03''"
    by code_simp+
  have g: "doc_get (shifts exampleDb) (''alice'' @ ''_'' @ getISODateString 300 1754258400000) = Some openShift
      \<and> timeIn openShift \<noteq> []"
    by (simp add: d doc_get_def exampleDb_def openShift_def)
  have same: "getISODateString 300 1754258460000 = getISODateString 300 1754258400000"
    by (simp only: d d2)
  have first: "fst (punchIn 300 1754258400000 exampleDb ''bob'') = None"
    by (simp add: punchIn_def Let_def d doc_get_def exampleDb_def)
  have 1: "punchIn 300 1754258400000 exampleDb ''alice'' = (Some AlreadyPunchedIn, exampleDb)"
    using C4_punchIn_already_punched_in [where db = exampleDb and uname = "''alice''" and tz = 300
        and now = 1754258400000 and sh = openShift] g
    by blast
  have 2: "punchIn 300 1754258460000 (snd (punchIn 300 1754258400000 exampleDb ''bob'')) ''bob''
       = (Some AlreadyPunchedIn, snd (punchIn 300 1754258400000 exampleDb ''bob''))"
    using C4_punchIn_already_punched_in [where db = exampleDb and uname = "''bob''" and tz = 300
        and now = 1754258400000 and later = 1754258460000] same
    by blast
  show ?thesis using 1 first 2 by blast
qed



text \<open>
  C10. A successful \<open>punchOut\<close> changes the \<open>timeOut\<close> field of the one shift
  document and nothing else: the other five fields keep their values, every other
  shift document is as before, no document is added or removed, and the users and
  settings collections are untouched.
\<close>

theorem C10_punchOut_frame:
  assumes "doc_get (shifts db) (uname @ ''_'' @ getISODateString tz now) = Some sh"
    and "timeIn sh \<noteq> []" and "timeOut sh = []"
  shows "fst (punchOut tz now db uname) = None
    \<and> (\<exists>sh'. doc_get (shifts (snd (punchOut tz now db uname))) (uname @ ''_'' @ getISODateString tz now) = Some sh'
          \<and> timeOut sh' = take 16 (toISOString now)
          \<and> username sh' = username sh \<and> date sh' = date sh \<and> timeIn sh' = timeIn sh
          \<and> adjTimeIn sh' = adjTimeIn sh \<and> adjTimeOut sh' = adjTimeOut sh)
    \<and> (\<forall>k. k \<noteq> uname @ ''_'' @ getISODateString tz now \<longrightarrow>
          doc_get (shifts (snd (punchOut tz now db uname))) k = doc_get (shifts db) k)
    \<and> map fst (shifts (snd (punchOut tz now db uname))) = map fst (shifts db)
    \<and> users (snd (punchOut tz now db uname)) = users db
    \<and> settings (snd (punchOut tz now db uname)) = settings db"
proof -
  let ?id = "uname @ ''_'' @ getISODateString tz now"
  have m: "map_of (shifts db) ?id \<noteq> None"
    using assms(1) by (simp add: doc_get_def)
  have run: "punchOut tz now db uname =
    (None, db\<lparr>shifts := AList.update ?id (sh\<lparr>timeOut := take 16 (toISOString now)\<rparr>) (shifts db)\<rparr>)"
    using assms by (rule punchOut_success)
  show ?thesis
    unfolding run using m by (simp add: doc_get_def update_conv' update_keys_present)
qed

theorem C10_punchOut_frame_witness:
  "fst (punchOut 300 1754258400000 exampleDb ''alice'') = None
   \<and> doc_get (shifts (snd (punchOut 300 1754258400000 exampleDb ''alice''))) ''bob_2025-08-04''
       = Some (quarterHour ''2025-08-04'')
   \<and> map fst (shifts (snd (punchOut 300 1754258400000 exampleDb ''alice'')))
       = [''alice_2025-08-02'', ''bob_2025-08-04'', ''alice_2025-08-03'']
   \<and> users (snd (punchOut 300 1754258400000 exampleDb ''alice'')) = users exampleDb
   \<and> settings (snd (punchOut 300 1754258400000 exampleDb ''alice'')) = settings exampleDb"
proof -
  have d: "getISODateString 300 1754258400000 = ''2025-08-03''"
    by code_simp
  have a: "doc_get (shifts exampleDb) (''alice'' @ ''_'' @ getISODateString 300 1754258400000) = Some openShift"
    and b: "timeIn openShift \<noteq> []" and c: "timeOut openShift = []"
    by (simp_all add: d doc_get_def exampleDb_def openShift_def)
  have ne: "''bob_2025-08-04'' \<noteq> ''alice'' @ ''_'' @ getISODateString 300 1754258400000"
    by (simp add: d)
  have old: "doc_get (shifts exampleDb) ''bob_2025-08-04'' = Some (quarterHour ''2025-08-04'')"
    by (simp add: doc_get_def exampleDb_def)
  have keys: "map fst (shifts exampleDb) = [''alice_2025-08-02'', ''bob_2025-08-04'', ''alice_2025-08-03'']"
    by (simp add: exampleDb_def)
  note f = C10_punchOut_frame [OF a b c]
  have 1: "fst (punchOut 300 1754258400000 exampleDb ''alice'') = None" using f by blast
  have "doc_get (shifts (snd (punchOut 300 1754258400000 exampleDb ''alice''))) ''bob_2025-08-04''
      = doc_get (shifts exampleDb) ''bob_2025-08-04''"
    using f ne by blast
  then have 2: "doc_get (shifts (snd (punchOut 300 1754258400000 exampleDb ''alice''))) ''bob_2025-08-04''
      = Some (quarterHour ''2025-08-04'')"
    by (simp only: old)
  have "map fst (shifts (snd (punchOut 300 1754258400000 exampleDb ''alice''))) = map fst (shifts exampleDb)"
    using f by blast
  then have 3: "map fst (shifts (snd (punchOut 300 1754258400000 exampleDb ''alice'')))
       = [''alice_2025-08-02'', ''bob_2025-08-04'', ''alice_2025-08-03'']"
    by (simp only: keys)
  have 4: "users (snd (punchOut 300 1754258400000 exampleDb ''alice'')) = users exampleDb"
    "settings (snd (punchOut 300 1754258400000 exampleDb ''alice'')) = settings exampleDb"
    using f by blast+
  show ?thesis using 1 2 3 4 by blast
qed

section \<open>Adjustments and punches on one record\<close>

lemma saveAdjustmentRow_success:
  "doc_get (shifts db) docId = Some d \<Longrightarrow>
   saveAdjustmentRow db docId i a =
     (None, db\<lparr>shifts := AList.update docId (d\<lparr>adjTimeIn := i, adjTimeOut := a\<rparr>) (shifts db)\<rparr>)"
  by (simp add: saveAdjustmentRow_def doc_update_Some jsOr_def)

lemma saveAdjustmentRow_missing:
  "doc_get (shifts db) docId = None \<Longrightarrow>
   saveAdjustmentRow db docId i a = (Some (RecordNotFound docId), db)"
  by (simp add: saveAdjustmentRow_def doc_update_def doc_get_def)

lemma punchIn_success:
  assumes "doc_get (shifts db) (uname @ ''_'' @ getISODateString tz now) = None
    \<or> (\<exists>sh. doc_get (shifts db) (uname @ ''_'' @ getISODateString tz now) = Some sh \<and> timeIn sh = [])"
  shows "punchIn tz now db uname =
    (None, db\<lparr>shifts := AList.update (uname @ ''_'' @ getISODateString tz now)
                   \<lparr>username = uname, date = getISODateString tz now,
                    timeIn = take 16 (toISOString now), timeOut = [],
                    adjTimeIn = [], adjTimeOut = []\<rparr> (shifts db)\<rparr>)"
  using assms by (auto simp: punchIn_def Let_def doc_set_def)

lemma punchIn_None_iff:
  "fst (punchIn tz now db uname) = None \<longleftrightarrow>
     (doc_get (shifts db) (uname @ ''_'' @ getISODateString tz now) = None
      \<or> (\<exists>sh. doc_get (shifts db) (uname @ ''_'' @ getISODateString tz now) = Some sh \<and> timeIn sh = []))"
  by (auto simp: punchIn_def Let_def split: option.splits)

lemma doc_get_update: "doc_get (AList.update k v c) k' = (if k' = k then Some v else doc_get c k')"
  by (simp add: doc_get_def update_conv')

text \<open>
  \<open>punchIn\<close> is the only write that creates a shift document, and it stores a \<open>timeIn\<close>;
  no write removes one. So when every stored shift has a \<open>timeIn\<close>, that stays so, and
  \<open>punchIn\<close>, which writes a whole document with empty adjustments, never writes over a
  stored one.
\<close>

lemma writes_keep_timeIn:
  assumes "\<forall>k d. doc_get (shifts db) k = Some d \<longrightarrow> timeIn d \<noteq> []"
  shows "\<forall>k d. doc_get (shifts (snd (punchIn tz now db uname))) k = Some d \<longrightarrow> timeIn d \<noteq> []"
    and "\<forall>k d. doc_get (shifts (snd (punchOut tz now db uname))) k = Some d \<longrightarrow> timeIn d \<noteq> []"
    and "\<forall>k d. doc_get (shifts (snd (saveAdjustmentRow db docId i a))) k = Some d \<longrightarrow> timeIn d \<noteq> []"
proof -
  show "\<forall>k d. doc_get (shifts (snd (punchIn tz now db uname))) k = Some d \<longrightarrow> timeIn d \<noteq> []"
    using assms
    by (auto simp: punchIn_def Let_def doc_get_doc_set toISOString_nonempty split: if_splits)
  show "\<forall>k d. doc_get (shifts (snd (punchOut tz now db uname))) k = Some d \<longrightarrow> timeIn d \<noteq> []"
  proof (cases "\<exists>sh. doc_get (shifts db) (uname @ ''_'' @ getISODateString tz now) = Some sh
                  \<and> timeIn sh \<noteq> [] \<and> timeOut sh = []")
    case True
    then obtain sh where sh: "doc_get (shifts db) (uname @ ''_'' @ getISODateString tz now) = Some sh"
      "timeIn sh \<noteq> []" "timeOut sh = []" by blast
    show ?thesis
      using assms sh(2) by (auto simp: punchOut_success [OF sh] doc_get_update split: if_splits)
  next
    case False
    then have "snd (punchOut tz now db uname) = db"
      by (auto simp: punchOut_def Let_def split: option.splits)
    then show ?thesis using assms by simp
  qed
  show "\<forall>k d. doc_get (shifts (snd (saveAdjustmentRow db docId i a))) k = Some d \<longrightarrow> timeIn d \<noteq> []"
  proof (cases "doc_get (shifts db) docId")
    case None
    then show ?thesis using assms by (simp add: saveAdjustmentRow_missing)
  next
    case (Some d)
    then have "timeIn d \<noteq> []" using assms by blast
    then show ?thesis
      using assms by (auto simp: saveAdjustmentRow_success [OF Some] doc_get_update split: if_splits)
  qed
qed

lemma punchIn_creates_only:
  assumes "\<forall>k d. doc_get (shifts db) k = Some d \<longrightarrow> timeIn d \<noteq> []"
    and "fst (punchIn tz now db uname) = None"
  shows "doc_get (shifts db) (uname @ ''_'' @ getISODateString tz now) = None"
  using assms by (auto simp: punchIn_None_iff)

text \<open>
  Punching out and saving an adjustment of the same record, in either order: both writes
  are merges, both succeed, and the record stored at the end is the same.
\<close>

lemma punchOut_saveAdjustmentRow_commute:
  assumes d: "doc_get (shifts db) (uname @ ''_'' @ getISODateString tz now) = Some d"
    and ti: "timeIn d \<noteq> []" and to: "timeOut d = []"
  shows "saveAdjustmentRow (snd (punchOut tz now db uname)) (uname @ ''_'' @ getISODateString tz now) i a
           = (None, db\<lparr>shifts := AList.update (uname @ ''_'' @ getISODateString tz now)
                 (d\<lparr>timeOut := take 16 (toISOString now), adjTimeIn := i, adjTimeOut := a\<rparr>) (shifts db)\<rparr>)"
    and "punchOut tz now (snd (saveAdjustmentRow db (uname @ ''_'' @ getISODateString tz now) i a)) uname
           = (None, db\<lparr>shifts := AList.update (uname @ ''_'' @ getISODateString tz now)
                 (d\<lparr>timeOut := take 16 (toISOString now), adjTimeIn := i, adjTimeOut := a\<rparr>) (shifts db)\<rparr>)"
proof -
  let ?id = "uname @ ''_'' @ getISODateString tz now"
  let ?iso = "take 16 (toISOString now)"
  have 1: "punchOut tz now db uname = (None, db\<lparr>shifts := AList.update ?id (d\<lparr>timeOut := ?iso\<rparr>) (shifts db)\<rparr>)"
    using d ti to by (rule punchOut_success)
  have g1: "doc_get (shifts (db\<lparr>shifts := AList.update ?id (d\<lparr>timeOut := ?iso\<rparr>) (shifts db)\<rparr>)) ?id
              = Some (d\<lparr>timeOut := ?iso\<rparr>)"
    by (simp add: doc_get_update)
  show "saveAdjustmentRow (snd (punchOut tz now db uname)) ?id i a
           = (None, db\<lparr>shifts := AList.update ?id (d\<lparr>timeOut := ?iso, adjTimeIn := i, adjTimeOut := a\<rparr>) (shifts db)\<rparr>)"
    unfolding 1 snd_conv by (simp only: saveAdjustmentRow_success [OF g1]) simp
  have 2: "saveAdjustmentRow db ?id i a
      = (None, db\<lparr>shifts := AList.update ?id (d\<lparr>adjTimeIn := i, adjTimeOut := a\<rparr>) (shifts db)\<rparr>)"
    using d by (rule saveAdjustmentRow_success)
  have g2: "doc_get (shifts (db\<lparr>shifts := AList.update ?id (d\<lparr>adjTimeIn := i, adjTimeOut := a\<rparr>) (shifts db)\<rparr>)) ?id
              = Some (d\<lparr>adjTimeIn := i, adjTimeOut := a\<rparr>)"
    by (simp add: doc_get_update)
  have rec: "d\<lparr>adjTimeIn := i, adjTimeOut := a, timeOut := ?iso\<rparr>
               = d\<lparr>timeOut := ?iso, adjTimeIn := i, adjTimeOut := a\<rparr>"
    by (cases d) simp
  have ti2: "timeIn (d\<lparr>adjTimeIn := i, adjTimeOut := a\<rparr>) \<noteq> []" using ti by simp
  have to2: "timeOut (d\<lparr>adjTimeIn := i, adjTimeOut := a\<rparr>) = []" using to by simp
  have "punchOut tz now (db\<lparr>shifts := AList.update ?id (d\<lparr>adjTimeIn := i, adjTimeOut := a\<rparr>) (shifts db)\<rparr>) uname
      = (None, db\<lparr>shifts := AList.update ?id (d\<lparr>timeOut := ?iso, adjTimeIn := i, adjTimeOut := a\<rparr>) (shifts db)\<rparr>)"
    by (simp only: punchOut_success [OF g2 ti2 to2]) (simp add: rec)
  then show "punchOut tz now (snd (saveAdjustmentRow db ?id i a)) uname
           = (None, db\<lparr>shifts := AList.update ?id (d\<lparr>timeOut := ?iso, adjTimeIn := i, adjTimeOut := a\<rparr>) (shifts db)\<rparr>)"
    unfolding 2 snd_conv .
qed

text \<open>Punching in and then saving an adjustment; a later punch of the day changes nothing.\<close>

lemma punchIn_then_saveAdjustmentRow:
  assumes ok: "fst (punchIn tz now db uname) = None"
  shows "saveAdjustmentRow (snd (punchIn tz now db uname)) (uname @ ''_'' @ getISODateString tz now) i a
           = (None, db\<lparr>shifts := AList.update (uname @ ''_'' @ getISODateString tz now)
                 \<lparr>username = uname, date = getISODateString tz now,
                  timeIn = take 16 (toISOString now), timeOut = [],
                  adjTimeIn = i, adjTimeOut = a\<rparr> (shifts db)\<rparr>)"
proof -
  let ?id = "uname @ ''_'' @ getISODateString tz now"
  let ?new = "\<lparr>username = uname, date = getISODateString tz now,
               timeIn = take 16 (toISOString now), timeOut = [], adjTimeIn = [], adjTimeOut = []\<rparr>"
  have 1: "punchIn tz now db uname = (None, db\<lparr>shifts := AList.update ?id ?new (shifts db)\<rparr>)"
    using ok by (intro punchIn_success) (simp only: punchIn_None_iff)
  have g: "doc_get (shifts (db\<lparr>shifts := AList.update ?id ?new (shifts db)\<rparr>)) ?id = Some ?new"
    by (simp add: doc_get_update)
  show ?thesis unfolding 1 snd_conv by (simp only: saveAdjustmentRow_success [OF g]) simp
qed

text \<open>
  Saving an adjustment of a record that has a \<open>timeIn\<close>, and then punching in: the punch
  fails and the adjusted record stays.
\<close>

lemma saveAdjustmentRow_then_punchIn:
  assumes d: "doc_get (shifts db) (uname @ ''_'' @ getISODateString tz now) = Some d"
    and ti: "timeIn d \<noteq> []"
  shows "saveAdjustmentRow db (uname @ ''_'' @ getISODateString tz now) i a
           = (None, db\<lparr>shifts := AList.update (uname @ ''_'' @ getISODateString tz now)
                 (d\<lparr>adjTimeIn := i, adjTimeOut := a\<rparr>) (shifts db)\<rparr>)"
    and "punchIn tz now (snd (saveAdjustmentRow db (uname @ ''_'' @ getISODateString tz now) i a)) uname
           = (Some AlreadyPunchedIn,
              db\<lparr>shifts := AList.update (uname @ ''_'' @ getISODateString tz now)
                 (d\<lparr>adjTimeIn := i, adjTimeOut := a\<rparr>) (shifts db)\<rparr>)"
proof -
  let ?id = "uname @ ''_'' @ getISODateString tz now"
  show 1: "saveAdjustmentRow db ?id i a
      = (None, db\<lparr>shifts := AList.update ?id (d\<lparr>adjTimeIn := i, adjTimeOut := a\<rparr>) (shifts db)\<rparr>)"
    using d by (rule saveAdjustmentRow_success)
  have g: "doc_get (shifts (db\<lparr>shifts := AList.update ?id (d\<lparr>adjTimeIn := i, adjTimeOut := a\<rparr>) (shifts db)\<rparr>)) ?id
              = Some (d\<lparr>adjTimeIn := i, adjTimeOut := a\<rparr>)"
    by (simp add: doc_get_update)
  have "punchIn tz now (db\<lparr>shifts := AList.update ?id (d\<lparr>adjTimeIn := i, adjTimeOut := a\<rparr>) (shifts db)\<rparr>) uname
      = (Some AlreadyPunchedIn, db\<lparr>shifts := AList.update ?id (d\<lparr>adjTimeIn := i, adjTimeOut := a\<rparr>) (shifts db)\<rparr>)"
    using ti by (intro punchIn_guard [OF g]) simp
  then show "punchIn tz now (snd (saveAdjustmentRow db ?id i a)) uname
           = (Some AlreadyPunchedIn,
              db\<lparr>shifts := AList.update ?id (d\<lparr>adjTimeIn := i, adjTimeOut := a\<rparr>) (shifts db)\<rparr>)"
    unfolding 1 snd_conv .
qed

section \<open>Employees\<close>

lemma deleteDocs_users: "users (deleteDocs docs db) = users db"
  by (induction docs arbitrary: db) simp_all

lemma filter_delete:
  "filter P (AList.delete k al) = filter (\<lambda>p. fst p \<noteq> k \<and> P p) al"
  by (induction al) auto

lemma deleteDocs_shifts:
  "shifts (deleteDocs docs db) = filter (\<lambda>(k, v). k \<notin> fst ` set docs) (shifts db)"
proof (induction docs arbitrary: db)
  case Nil
  then show ?case by simp
next
  case (Cons d docs)
  have "filter (\<lambda>(k, v). k \<notin> fst ` set docs) (AList.delete (fst d) (shifts db))
      = filter (\<lambda>(k, v). k \<notin> fst ` set (d # docs)) (shifts db)"
    by (simp add: filter_delete split_def)
  then show ?case by (simp add: Cons.IH doc_delete_def)
qed

lemma whereEq_after_delete:
  "whereEq field val (filter (\<lambda>(k, v). k \<notin> fst ` set (whereEq field val c)) c) = []"
  by (auto simp: whereEq_def filter_empty_conv intro: rev_image_eqI)

lemma sortByDate_Nil: "sortByDate [] = []"
  by (simp add: sortByDate_def)

lemma addEmployee_replaces:
  "doc_get (users (addEmployee hashPassword db uname password rate)) uname
     = Some \<lparr>userName = uname, role = ''employee'', hourlyRate = rate,
             passwordHash = hashPassword password\<rparr>"
  by (simp add: addEmployee_def Let_def doc_get_doc_set)

text \<open>
  C8. After \<open>deleteEmployee\<close> the query for the user's shifts finds nothing, so
  \<open>getShiftsForUser\<close> returns the empty list, and the user document is gone.
\<close>

theorem C8_deleteEmployee:
  "getShiftsForUser (deleteEmployee db uname) uname = []
   \<and> whereEq username uname (shifts (deleteEmployee db uname)) = []
   \<and> doc_get (users (deleteEmployee db uname)) uname = None"
proof -
  have s: "whereEq username uname (shifts (deleteEmployee db uname)) = []"
    by (simp add: deleteEmployee_def Let_def deleteDocs_shifts whereEq_after_delete)
  have u: "doc_get (users (deleteEmployee db uname)) uname = None"
    by (simp add: deleteEmployee_def Let_def deleteDocs_users doc_get_def doc_delete_def delete_conv')
  show ?thesis using s u by (simp add: getShiftsForUser_def sortByDate_Nil)
qed

theorem C8_deleteEmployee_witness:
  "map fst (getShiftsForUser exampleDb ''alice'') = [''alice_2025-08-02'', ''alice_2025-08-03'']
   \<and> getShiftsForUser (deleteEmployee exampleDb ''alice'') ''alice'' = []
   \<and> doc_get (users (deleteEmployee exampleDb ''alice'')) ''alice'' = None"
proof -
  have before: "map fst (getShiftsForUser exampleDb ''alice'') = [''alice_2025-08-02'', ''alice_2025-08-03'']"
    by code_simp
  show ?thesis using before C8_deleteEmployee [of exampleDb "''alice''"] by blast
qed

section \<open>The pay period\<close>

lemma currentIndex_brackets_today:
  assumes "newDate tz payPeriodStartDate = Some baseStart"
    and "newDate tz today = Some todayDate"
  shows "\<exists>idx. currentIndex tz payPeriodStartDate today = Some idx
    \<and> setDatePlus baseStart (idx * 14) \<le> todayDate
    \<and> todayDate < setDatePlus (setDatePlus baseStart (idx * 14)) 13 + msPerDay"
proof -
  define d where "d = (todayDate - baseStart) div 86400000"
  define idx where "idx = d div 14"
  have ci: "currentIndex tz payPeriodStartDate today = Some idx"
    by (simp add: currentIndex_def assms Let_def d_def idx_def)
  have m: "0 \<le> (todayDate - baseStart) mod 86400000" "(todayDate - baseStart) mod 86400000 < 86400000"
    by simp_all
  have "todayDate - baseStart = 86400000 * d + (todayDate - baseStart) mod 86400000"
    unfolding d_def by (rule mult_div_mod_eq [symmetric])
  then have 1: "86400000 * d \<le> todayDate - baseStart" "todayDate - baseStart < 86400000 * d + 86400000"
    using m by linarith+
  have n: "0 \<le> d mod 14" "d mod 14 < 14"
    by simp_all
  have "d = 14 * idx + d mod 14"
    unfolding idx_def by (rule mult_div_mod_eq [symmetric])
  then have 2: "14 * idx \<le> d" "d < 14 * idx + 14"
    using n by linarith+
  have "baseStart + idx * 14 * 86400000 \<le> todayDate"
    using 1 2 by linarith
  moreover have "todayDate < baseStart + idx * 14 * 86400000 + 13 * 86400000 + 86400000"
    using 1 2 by linarith
  ultimately show ?thesis using ci by (simp add: setDatePlus_def msPerDay_def)
qed

lemma currentPeriod_utc_examples:
  "currentPeriod 0 ''2025-01-01'' ''2025-01-20'' = Some (1, ''2025-01-15'', ''2025-01-28'')
   \<and> inPeriod ''2025-01-15'' ''2025-01-28'' ''2025-01-20''
   \<and> currentPeriod 0 ''2025-01-01'' ''2024-12-25'' = Some (- 1, ''2024-12-18'', ''2024-12-31'')
   \<and> inPeriod ''2024-12-18'' ''2024-12-31'' ''2024-12-25''"
  by code_simp

text \<open>
  C2. The index is \<open>floor\<close> of the days between the two dates over 14, also before
  the anchor, and as time values the start of the period is not after today and its
  last day is not before today (the lemma on time values above). On a device at UTC
  the bounds shown are the anchor plus 14 times the index and 13 days more, as the
  examples above show for 2025-01-20. On a device west of UTC the bounds shown come
  out one day early: the anchor string is parsed as midnight UTC, which is the evening
  before in local time, and the bounds are written as local days. At UTC-5
  (\<open>getTimezoneOffset()\<close> is 300), with the anchor 2025-01-01 and the clock at noon
  of 2025-01-14 local time, today is 2025-01-14, the index is 0 and the period runs
  from 2024-12-31 to 2025-01-13: today is outside its own period. With the date
  2025-01-20 the index is 1 and the period is 2025-01-14 to 2025-01-27.
\<close>

theorem C2_period_west_of_utc:
  "getISODateString 300 1736874000000 = ''2025-01-14''
   \<and> currentPeriod 300 ''2025-01-01'' ''2025-01-14'' = Some (0, ''2024-12-31'', ''2025-01-13'')
   \<and> \<not> inPeriod ''2024-12-31'' ''2025-01-13'' ''2025-01-14''
   \<and> currentPeriod 300 ''2025-01-01'' ''2025-01-20'' = Some (1, ''2025-01-14'', ''2025-01-27'')"
  by code_simp

section \<open>The shift table\<close>

lemma actualStartStr_eq: "actualStartStr sh = (if adjTimeIn sh \<noteq> [] then adjTimeIn sh else timeIn sh)"
  by (simp add: actualStartStr_def jsOr_def)

lemma actualEndStr_eq: "actualEndStr sh = (if adjTimeOut sh \<noteq> [] then adjTimeOut sh else timeOut sh)"
  by (simp add: actualEndStr_def jsOr_def)

lemma tableLoop_append:
  "tableLoop parse rate (xs @ ys) acc = tableLoop parse rate ys (tableLoop parse rate xs acc)"
proof (induction xs arbitrary: acc)
  case Nil
  then show ?case by simp
next
  case (Cons x xs)
  obtain tb th tp where acc: "acc = (tb, th, tp)" by (cases acc) auto
  show ?case by (simp add: acc Cons.IH Let_def)
qed

text \<open>The rows do not depend on the totals so far, nor the totals on the rows so far.\<close>

lemma tableLoop_rows:
  "fst (tableLoop parse rate ss (tb, th, tp)) =
     tb @ map (\<lambda>sh. if actualStartStr sh \<noteq> [] \<and> actualEndStr sh \<noteq> []
                    then mkRow sh (computeHours parse (actualStartStr sh) (actualEndStr sh))
                           (jsDivBy (jsMathRound (jsMul (jsMul
                              (computeHours parse (actualStartStr sh) (actualEndStr sh)) rate) (Fin 100))) 100)
                    else mkRow sh (Fin 0) (Fin 0)) ss"
  by (induction ss arbitrary: tb th tp) (simp_all add: Let_def)

lemma tableLoop_totals:
  "snd (tableLoop parse rate ss (tb, th, tp)) =
     (foldl jsAdd th (map (\<lambda>sh. computeHours parse (actualStartStr sh) (actualEndStr sh))
                         (filter (\<lambda>sh. actualStartStr sh \<noteq> [] \<and> actualEndStr sh \<noteq> []) ss)),
      foldl jsAdd tp (map (\<lambda>sh. jsDivBy (jsMathRound (jsMul (jsMul
                              (computeHours parse (actualStartStr sh) (actualEndStr sh)) rate) (Fin 100))) 100)
                         (filter (\<lambda>sh. actualStartStr sh \<noteq> [] \<and> actualEndStr sh \<noteq> []) ss)))"
  by (induction ss arbitrary: tb th tp) (simp_all add: Let_def)

lemma tableLoop_totals_indep:
  "snd (tableLoop parse rate ss (tb, th, tp)) = snd (tableLoop parse rate ss (tb', th, tp))"
  by (simp only: tableLoop_totals)

lemma tableLoop_single:
  "tableLoop parse rate [sh] (tb, th, tp) =
     (let start = (if adjTimeIn sh \<noteq> [] then adjTimeIn sh else timeIn sh);
          end' = (if adjTimeOut sh \<noteq> [] then adjTimeOut sh else timeOut sh);
          h = computeHours parse start end';
          p = jsDivBy (jsMathRound (jsMul (jsMul h rate) (Fin 100))) 100
      in if start \<noteq> [] \<and> end' \<noteq> [] then (tb @ [mkRow sh h p], jsAdd th h, jsAdd tp p)
         else (tb @ [mkRow sh (Fin 0) (Fin 0)], th, tp))"
  by (simp add: actualStartStr_eq actualEndStr_eq Let_def)

lemma filter_drop_nth:
  assumes "i < length xs" and "\<not> P (xs ! i)"
  shows "filter P (take i xs @ drop (Suc i) xs) = filter P xs"
proof -
  have "xs = take i xs @ xs ! i # drop (Suc i) xs"
    using assms(1) by (rule id_take_nth_drop)
  then have "filter P xs = filter P (take i xs @ xs ! i # drop (Suc i) xs)"
    by simp
  then show ?thesis using assms(2) by simp
qed

text \<open>
  With an adjusted start, the stored \<open>timeIn\<close> has no part in the hours, the pay or the
  totals of the table, wherever the shift stands in the period; likewise \<open>timeOut\<close> with an
  adjusted end.
\<close>

lemma tableLoop_timeIn_ignored:
  assumes "adjTimeIn sh \<noteq> []"
  shows "snd (tableLoop parse rate (before @ sh\<lparr>timeIn := t\<rparr> # after) acc)
           = snd (tableLoop parse rate (before @ sh # after) acc)"
    and "map hours (fst (tableLoop parse rate (before @ sh\<lparr>timeIn := t\<rparr> # after) acc))
           = map hours (fst (tableLoop parse rate (before @ sh # after) acc))"
    and "map pay (fst (tableLoop parse rate (before @ sh\<lparr>timeIn := t\<rparr> # after) acc))
           = map pay (fst (tableLoop parse rate (before @ sh # after) acc))"
proof -
  obtain tb th tp where acc: "acc = (tb, th, tp)" by (cases acc) auto
  have s: "actualStartStr (sh\<lparr>timeIn := t\<rparr>) = actualStartStr sh"
    using assms by (simp add: actualStartStr_eq)
  have e: "actualEndStr (sh\<lparr>timeIn := t\<rparr>) = actualEndStr sh"
    by (simp add: actualEndStr_eq)
  show "snd (tableLoop parse rate (before @ sh\<lparr>timeIn := t\<rparr> # after) acc)
           = snd (tableLoop parse rate (before @ sh # after) acc)"
    by (simp add: acc tableLoop_totals s e)
  show "map hours (fst (tableLoop parse rate (before @ sh\<lparr>timeIn := t\<rparr> # after) acc))
           = map hours (fst (tableLoop parse rate (before @ sh # after) acc))"
    by (simp add: acc tableLoop_rows s e mkRow_def)
  show "map pay (fst (tableLoop parse rate (before @ sh\<lparr>timeIn := t\<rparr> # after) acc))
           = map pay (fst (tableLoop parse rate (before @ sh # after) acc))"
    by (simp add: acc tableLoop_rows s e mkRow_def)
qed

lemma tableLoop_timeOut_ignored:
  assumes "adjTimeOut sh \<noteq> []"
  shows "snd (tableLoop parse rate (before @ sh\<lparr>timeOut := t\<rparr> # after) acc)
           = snd (tableLoop parse rate (before @ sh # after) acc)"
    and "map hours (fst (tableLoop parse rate (before @ sh\<lparr>timeOut := t\<rparr> # after) acc))
           = map hours (fst (tableLoop parse rate (before @ sh # after) acc))"
    and "map pay (fst (tableLoop parse rate (before @ sh\<lparr>timeOut := t\<rparr> # after) acc))
           = map pay (fst (tableLoop parse rate (before @ sh # after) acc))"
proof -
  obtain tb th tp where acc: "acc = (tb, th, tp)" by (cases acc) auto
  have s: "actualStartStr (sh\<lparr>timeOut := t\<rparr>) = actualStartStr sh"
    by (simp add: actualStartStr_eq)
  have e: "actualEndStr (sh\<lparr>timeOut := t\<rparr>) = actualEndStr sh"
    using assms by (simp add: actualEndStr_eq)
  show "snd (tableLoop parse rate (before @ sh\<lparr>timeOut := t\<rparr> # after) acc)
           = snd (tableLoop parse rate (before @ sh # after) acc)"
    by (simp add: acc tableLoop_totals s e)
  show "map hours (fst (tableLoop parse rate (before @ sh\<lparr>timeOut := t\<rparr> # after) acc))
           = map hours (fst (tableLoop parse rate (before @ sh # after) acc))"
    by (simp add: acc tableLoop_rows s e mkRow_def)
  show "map pay (fst (tableLoop parse rate (before @ sh\<lparr>timeOut := t\<rparr> # after) acc))
           = map pay (fst (tableLoop parse rate (before @ sh # after) acc))"
    by (simp add: acc tableLoop_rows s e mkRow_def)
qed

text \<open>
  C3. For every shift record the loop of \<open>updateTable\<close> computes hours and pay from
  \<open>adjTimeIn\<close> when that is not empty, else from \<open>timeIn\<close>, and from \<open>adjTimeOut\<close> when
  that is not empty, else from \<open>timeOut\<close>. With \<open>adjTimeIn\<close> set, the stored \<open>timeIn\<close>
  has no part in the hours, the pay or the totals, wherever the shift stands in the
  period; likewise \<open>timeOut\<close> with \<open>adjTimeOut\<close> set.

  The order of the program's writes does not count. \<open>punchOut\<close> and the saving of an
  adjustment both merge into the stored record: on a clocked-in record they succeed in
  either order and store the same record, whose hours are computed from the adjusted end.
  \<open>punchIn\<close> writes a whole record, with empty adjustments, but only where no \<open>timeIn\<close>
  is stored: an adjustment saved after a punch-in is the start that is used, and no later
  punch-in of that day changes the record; and on a record with a \<open>timeIn\<close> a punch-in
  after the adjustment fails and leaves the adjusted record.
\<close>

theorem C3_effective_range:
  assumes docId: "docId = uname @ ''_'' @ getISODateString tz now"
  shows "tableLoop parse rate [sh] (tb, th, tp) =
      (let start = (if adjTimeIn sh \<noteq> [] then adjTimeIn sh else timeIn sh);
           end' = (if adjTimeOut sh \<noteq> [] then adjTimeOut sh else timeOut sh);
           h = computeHours parse start end';
           p = jsDivBy (jsMathRound (jsMul (jsMul h rate) (Fin 100))) 100
       in if start \<noteq> [] \<and> end' \<noteq> [] then (tb @ [mkRow sh h p], jsAdd th h, jsAdd tp p)
          else (tb @ [mkRow sh (Fin 0) (Fin 0)], th, tp))
    \<and> (adjTimeIn sh \<noteq> [] \<longrightarrow>
         snd (tableLoop parse rate (before @ sh\<lparr>timeIn := t\<rparr> # after) acc)
           = snd (tableLoop parse rate (before @ sh # after) acc)
         \<and> map hours (fst (tableLoop parse rate (before @ sh\<lparr>timeIn := t\<rparr> # after) acc))
           = map hours (fst (tableLoop parse rate (before @ sh # after) acc))
         \<and> map pay (fst (tableLoop parse rate (before @ sh\<lparr>timeIn := t\<rparr> # after) acc))
           = map pay (fst (tableLoop parse rate (before @ sh # after) acc)))
    \<and> (adjTimeOut sh \<noteq> [] \<longrightarrow>
         snd (tableLoop parse rate (before @ sh\<lparr>timeOut := t\<rparr> # after) acc)
           = snd (tableLoop parse rate (before @ sh # after) acc)
         \<and> map hours (fst (tableLoop parse rate (before @ sh\<lparr>timeOut := t\<rparr> # after) acc))
           = map hours (fst (tableLoop parse rate (before @ sh # after) acc))
         \<and> map pay (fst (tableLoop parse rate (before @ sh\<lparr>timeOut := t\<rparr> # after) acc))
           = map pay (fst (tableLoop parse rate (before @ sh # after) acc)))
    \<and> (doc_get (shifts db) docId = Some d \<and> timeIn d \<noteq> [] \<and> timeOut d = [] \<and> adjOut \<noteq> [] \<longrightarrow>
         fst (punchOut tz now db uname) = None
         \<and> fst (saveAdjustmentRow db docId adjIn adjOut) = None
         \<and> saveAdjustmentRow (snd (punchOut tz now db uname)) docId adjIn adjOut
             = punchOut tz now (snd (saveAdjustmentRow db docId adjIn adjOut)) uname
         \<and> fst (saveAdjustmentRow (snd (punchOut tz now db uname)) docId adjIn adjOut) = None
         \<and> doc_get (shifts (snd (saveAdjustmentRow (snd (punchOut tz now db uname)) docId adjIn adjOut))) docId
             = Some (d\<lparr>timeOut := take 16 (toISOString now), adjTimeIn := adjIn, adjTimeOut := adjOut\<rparr>)
         \<and> map hours (fst (tableLoop parse rate
               [d\<lparr>timeOut := take 16 (toISOString now), adjTimeIn := adjIn, adjTimeOut := adjOut\<rparr>]
               ([], Fin 0, Fin 0)))
             = [computeHours parse (if adjIn \<noteq> [] then adjIn else timeIn d) adjOut])
    \<and> (fst (punchIn tz now db uname) = None \<and> adjIn \<noteq> [] \<longrightarrow>
         fst (saveAdjustmentRow (snd (punchIn tz now db uname)) docId adjIn adjOut) = None
         \<and> doc_get (shifts (snd (saveAdjustmentRow (snd (punchIn tz now db uname)) docId adjIn adjOut))) docId
             = Some \<lparr>username = uname, date = getISODateString tz now,
                     timeIn = take 16 (toISOString now), timeOut = [],
                     adjTimeIn = adjIn, adjTimeOut = adjOut\<rparr>
         \<and> map hours (fst (tableLoop parse rate
               [\<lparr>username = uname, date = getISODateString tz now,
                 timeIn = take 16 (toISOString now), timeOut = [],
                 adjTimeIn = adjIn, adjTimeOut = adjOut\<rparr>] ([], Fin 0, Fin 0)))
             = [if adjOut \<noteq> [] then computeHours parse adjIn adjOut else Fin 0]
         \<and> (getISODateString tz later = getISODateString tz now \<longrightarrow>
              punchIn tz later (snd (saveAdjustmentRow (snd (punchIn tz now db uname)) docId adjIn adjOut)) uname
                = (Some AlreadyPunchedIn,
                   snd (saveAdjustmentRow (snd (punchIn tz now db uname)) docId adjIn adjOut))))
    \<and> (doc_get (shifts db) docId = Some d \<and> timeIn d \<noteq> [] \<and> adjIn \<noteq> [] \<longrightarrow>
         fst (saveAdjustmentRow db docId adjIn adjOut) = None
         \<and> punchIn tz now (snd (saveAdjustmentRow db docId adjIn adjOut)) uname
             = (Some AlreadyPunchedIn, snd (saveAdjustmentRow db docId adjIn adjOut))
         \<and> doc_get (shifts (snd (saveAdjustmentRow db docId adjIn adjOut))) docId
             = Some (d\<lparr>adjTimeIn := adjIn, adjTimeOut := adjOut\<rparr>)
         \<and> map hours (fst (tableLoop parse rate [d\<lparr>adjTimeIn := adjIn, adjTimeOut := adjOut\<rparr>]
               ([], Fin 0, Fin 0)))
             = [if (if adjOut \<noteq> [] then adjOut else timeOut d) \<noteq> []
                then computeHours parse adjIn (if adjOut \<noteq> [] then adjOut else timeOut d)
                else Fin 0])"
proof -
  let ?iso = "take 16 (toISOString now)"
  have c1: "tableLoop parse rate [sh] (tb, th, tp) =
      (let start = (if adjTimeIn sh \<noteq> [] then adjTimeIn sh else timeIn sh);
           end' = (if adjTimeOut sh \<noteq> [] then adjTimeOut sh else timeOut sh);
           h = computeHours parse start end';
           p = jsDivBy (jsMathRound (jsMul (jsMul h rate) (Fin 100))) 100
       in if start \<noteq> [] \<and> end' \<noteq> [] then (tb @ [mkRow sh h p], jsAdd th h, jsAdd tp p)
          else (tb @ [mkRow sh (Fin 0) (Fin 0)], th, tp))"
    by (rule tableLoop_single)
  have c2: "adjTimeIn sh \<noteq> [] \<longrightarrow>
         snd (tableLoop parse rate (before @ sh\<lparr>timeIn := t\<rparr> # after) acc)
           = snd (tableLoop parse rate (before @ sh # after) acc)
         \<and> map hours (fst (tableLoop parse rate (before @ sh\<lparr>timeIn := t\<rparr> # after) acc))
           = map hours (fst (tableLoop parse rate (before @ sh # after) acc))
         \<and> map pay (fst (tableLoop parse rate (before @ sh\<lparr>timeIn := t\<rparr> # after) acc))
           = map pay (fst (tableLoop parse rate (before @ sh # after) acc))"
    using tableLoop_timeIn_ignored [of sh parse rate before t after acc] by blast
  have c3: "adjTimeOut sh \<noteq> [] \<longrightarrow>
         snd (tableLoop parse rate (before @ sh\<lparr>timeOut := t\<rparr> # after) acc)
           = snd (tableLoop parse rate (before @ sh # after) acc)
         \<and> map hours (fst (tableLoop parse rate (before @ sh\<lparr>timeOut := t\<rparr> # after) acc))
           = map hours (fst (tableLoop parse rate (before @ sh # after) acc))
         \<and> map pay (fst (tableLoop parse rate (before @ sh\<lparr>timeOut := t\<rparr> # after) acc))
           = map pay (fst (tableLoop parse rate (before @ sh # after) acc))"
    using tableLoop_timeOut_ignored [of sh parse rate before t after acc] by blast
  have c4: "doc_get (shifts db) docId = Some d \<and> timeIn d \<noteq> [] \<and> timeOut d = [] \<and> adjOut \<noteq> [] \<longrightarrow>
         fst (punchOut tz now db uname) = None
         \<and> fst (saveAdjustmentRow db docId adjIn adjOut) = None
         \<and> saveAdjustmentRow (snd (punchOut tz now db uname)) docId adjIn adjOut
             = punchOut tz now (snd (saveAdjustmentRow db docId adjIn adjOut)) uname
         \<and> fst (saveAdjustmentRow (snd (punchOut tz now db uname)) docId adjIn adjOut) = None
         \<and> doc_get (shifts (snd (saveAdjustmentRow (snd (punchOut tz now db uname)) docId adjIn adjOut))) docId
             = Some (d\<lparr>timeOut := ?iso, adjTimeIn := adjIn, adjTimeOut := adjOut\<rparr>)
         \<and> map hours (fst (tableLoop parse rate
               [d\<lparr>timeOut := ?iso, adjTimeIn := adjIn, adjTimeOut := adjOut\<rparr>] ([], Fin 0, Fin 0)))
             = [computeHours parse (if adjIn \<noteq> [] then adjIn else timeIn d) adjOut]"
    (is "?P \<longrightarrow> ?Q")
  proof
    assume p: "?P"
    have h: "doc_get (shifts db) docId = Some d" "timeIn d \<noteq> []" "timeOut d = []" "adjOut \<noteq> []"
      using p by blast+
    have g: "doc_get (shifts db) (uname @ ''_'' @ getISODateString tz now) = Some d"
      using h(1) by (simp only: docId)
    note a = punchOut_saveAdjustmentRow_commute [OF g h(2) h(3), of adjIn adjOut, folded docId]
    have po: "fst (punchOut tz now db uname) = None"
      by (simp only: punchOut_success [OF g h(2) h(3)] fst_conv)
    have sa: "fst (saveAdjustmentRow db docId adjIn adjOut) = None"
      by (simp only: saveAdjustmentRow_success [OF h(1)] fst_conv)
    have row: "map hours (fst (tableLoop parse rate
               [d\<lparr>timeOut := ?iso, adjTimeIn := adjIn, adjTimeOut := adjOut\<rparr>] ([], Fin 0, Fin 0)))
             = [computeHours parse (if adjIn \<noteq> [] then adjIn else timeIn d) adjOut]"
      using h(2) h(4) by (simp add: tableLoop_single Let_def mkRow_def del: tableLoop.simps)
    have eq: "saveAdjustmentRow (snd (punchOut tz now db uname)) docId adjIn adjOut
             = punchOut tz now (snd (saveAdjustmentRow db docId adjIn adjOut)) uname"
      by (simp only: a)
    have ok: "fst (saveAdjustmentRow (snd (punchOut tz now db uname)) docId adjIn adjOut) = None"
      by (simp only: a(1) fst_conv)
    have g': "doc_get (shifts (snd (saveAdjustmentRow (snd (punchOut tz now db uname)) docId adjIn adjOut))) docId
             = Some (d\<lparr>timeOut := ?iso, adjTimeIn := adjIn, adjTimeOut := adjOut\<rparr>)"
      by (simp add: a(1) doc_get_update)
    show "?Q"
      using po sa eq ok g' row by blast
  qed
  have c5: "fst (punchIn tz now db uname) = None \<and> adjIn \<noteq> [] \<longrightarrow>
         fst (saveAdjustmentRow (snd (punchIn tz now db uname)) docId adjIn adjOut) = None
         \<and> doc_get (shifts (snd (saveAdjustmentRow (snd (punchIn tz now db uname)) docId adjIn adjOut))) docId
             = Some \<lparr>username = uname, date = getISODateString tz now,
                     timeIn = ?iso, timeOut = [], adjTimeIn = adjIn, adjTimeOut = adjOut\<rparr>
         \<and> map hours (fst (tableLoop parse rate
               [\<lparr>username = uname, date = getISODateString tz now,
                 timeIn = ?iso, timeOut = [], adjTimeIn = adjIn, adjTimeOut = adjOut\<rparr>] ([], Fin 0, Fin 0)))
             = [if adjOut \<noteq> [] then computeHours parse adjIn adjOut else Fin 0]
         \<and> (getISODateString tz later = getISODateString tz now \<longrightarrow>
              punchIn tz later (snd (saveAdjustmentRow (snd (punchIn tz now db uname)) docId adjIn adjOut)) uname
                = (Some AlreadyPunchedIn,
                   snd (saveAdjustmentRow (snd (punchIn tz now db uname)) docId adjIn adjOut)))"
    (is "?P \<longrightarrow> ?Q")
  proof
    assume p: "?P"
    have h: "fst (punchIn tz now db uname) = None" "adjIn \<noteq> []"
      using p by blast+
    let ?new = "\<lparr>username = uname, date = getISODateString tz now,
                 timeIn = ?iso, timeOut = [], adjTimeIn = adjIn, adjTimeOut = adjOut\<rparr>"
    note a = punchIn_then_saveAdjustmentRow [OF h(1), of adjIn adjOut, folded docId]
    have g: "doc_get (shifts (snd (saveAdjustmentRow (snd (punchIn tz now db uname)) docId adjIn adjOut))) docId
               = Some ?new"
      by (simp add: a doc_get_update)
    have row: "map hours (fst (tableLoop parse rate [?new] ([], Fin 0, Fin 0)))
             = [if adjOut \<noteq> [] then computeHours parse adjIn adjOut else Fin 0]"
      using h(2) by (simp add: tableLoop_single Let_def mkRow_def del: tableLoop.simps)
    have again: "punchIn tz later (snd (saveAdjustmentRow (snd (punchIn tz now db uname)) docId adjIn adjOut)) uname
                = (Some AlreadyPunchedIn,
                   snd (saveAdjustmentRow (snd (punchIn tz now db uname)) docId adjIn adjOut))"
      if same: "getISODateString tz later = getISODateString tz now"
    proof -
      have "doc_get (shifts (snd (saveAdjustmentRow (snd (punchIn tz now db uname)) docId adjIn adjOut)))
              (uname @ ''_'' @ getISODateString tz later) = Some ?new"
        using g by (simp only: same docId)
      moreover have "timeIn ?new \<noteq> []" by (simp add: toISOString_nonempty)
      ultimately show ?thesis by (rule punchIn_guard)
    qed
    have ok: "fst (saveAdjustmentRow (snd (punchIn tz now db uname)) docId adjIn adjOut) = None"
      by (simp only: a fst_conv)
    show "?Q" using ok g row again by blast
  qed
  have c6: "doc_get (shifts db) docId = Some d \<and> timeIn d \<noteq> [] \<and> adjIn \<noteq> [] \<longrightarrow>
         fst (saveAdjustmentRow db docId adjIn adjOut) = None
         \<and> punchIn tz now (snd (saveAdjustmentRow db docId adjIn adjOut)) uname
             = (Some AlreadyPunchedIn, snd (saveAdjustmentRow db docId adjIn adjOut))
         \<and> doc_get (shifts (snd (saveAdjustmentRow db docId adjIn adjOut))) docId
             = Some (d\<lparr>adjTimeIn := adjIn, adjTimeOut := adjOut\<rparr>)
         \<and> map hours (fst (tableLoop parse rate [d\<lparr>adjTimeIn := adjIn, adjTimeOut := adjOut\<rparr>]
               ([], Fin 0, Fin 0)))
             = [if (if adjOut \<noteq> [] then adjOut else timeOut d) \<noteq> []
                then computeHours parse adjIn (if adjOut \<noteq> [] then adjOut else timeOut d)
                else Fin 0]"
    (is "?P \<longrightarrow> ?Q")
  proof
    assume p: "?P"
    have h: "doc_get (shifts db) docId = Some d" "timeIn d \<noteq> []" "adjIn \<noteq> []"
      using p by blast+
    have g: "doc_get (shifts db) (uname @ ''_'' @ getISODateString tz now) = Some d"
      using h(1) by (simp only: docId)
    note a = saveAdjustmentRow_then_punchIn [OF g h(2), of adjIn adjOut, folded docId]
    have row: "map hours (fst (tableLoop parse rate [d\<lparr>adjTimeIn := adjIn, adjTimeOut := adjOut\<rparr>]
               ([], Fin 0, Fin 0)))
             = [if (if adjOut \<noteq> [] then adjOut else timeOut d) \<noteq> []
                then computeHours parse adjIn (if adjOut \<noteq> [] then adjOut else timeOut d)
                else Fin 0]"
      using h(3) by (simp add: tableLoop_single Let_def mkRow_def del: tableLoop.simps)
    have e: "snd (saveAdjustmentRow db docId adjIn adjOut)
               = db\<lparr>shifts := AList.update docId (d\<lparr>adjTimeIn := adjIn, adjTimeOut := adjOut\<rparr>) (shifts db)\<rparr>"
      by (simp only: a(1) snd_conv)
    have ok: "fst (saveAdjustmentRow db docId adjIn adjOut) = None"
      by (simp only: a(1) fst_conv)
    have again: "punchIn tz now (snd (saveAdjustmentRow db docId adjIn adjOut)) uname
             = (Some AlreadyPunchedIn, snd (saveAdjustmentRow db docId adjIn adjOut))"
      using a(2) by (simp only: e)
    have g': "doc_get (shifts (snd (saveAdjustmentRow db docId adjIn adjOut))) docId
             = Some (d\<lparr>adjTimeIn := adjIn, adjTimeOut := adjOut\<rparr>)"
      by (simp add: e doc_get_update)
    show "?Q" using ok again g' row by blast
  qed
  show ?thesis
    by (rule conjI [OF c1 conjI [OF c2 conjI [OF c3 conjI [OF c4 conjI [OF c5 c6]]]]])
qed

theorem C3_effective_range_witness:
  "tableLoop (dateParse 300) (Fin 20) [adjustedShift] ([], Fin 0, Fin 0)
     = ([mkRow adjustedShift (Fin (29 / 4)) (Fin 145)], Fin (29 / 4), Fin 145)
   \<and> snd (tableLoop (dateParse 300) (Fin 20)
            ([dayShift] @ adjustedShift\<lparr>timeIn := ''2025-08-02T08:00''\<rparr> # [openShift]) ([], Fin 0, Fin 0))
       = snd (tableLoop (dateParse 300) (Fin 20) ([dayShift] @ adjustedShift # [openShift]) ([], Fin 0, Fin 0))
   \<and> snd (tableLoop (dateParse 300) (Fin 20)
            ([dayShift] @ dayShift\<lparr>adjTimeOut := ''2025-08-02T18:00'', timeOut := ''2025-08-02T19:00''\<rparr> # [openShift])
            ([], Fin 0, Fin 0))
       = snd (tableLoop (dateParse 300) (Fin 20)
            ([dayShift] @ dayShift\<lparr>adjTimeOut := ''2025-08-02T18:00''\<rparr> # [openShift]) ([], Fin 0, Fin 0))
   \<and> saveAdjustmentRow (snd (punchOut 300 1754258400000 exampleDb ''alice'')) ''alice_2025-08-03'' ''08:30'' ''18:00''
       = punchOut 300 1754258400000 (snd (saveAdjustmentRow exampleDb ''alice_2025-08-03'' ''08:30'' ''18:00'')) ''alice''
   \<and> doc_get (shifts (snd (saveAdjustmentRow (snd (punchOut 300 1754258400000 exampleDb ''alice''))
                              ''alice_2025-08-03'' ''08:30'' ''18:00''))) ''alice_2025-08-03''
       = Some (openShift\<lparr>timeOut := ''2025-08-03T22:00'', adjTimeIn := ''08:30'', adjTimeOut := ''18:00''\<rparr>)
   \<and> doc_get (shifts (snd (saveAdjustmentRow (snd (punchIn 300 1754258400000 exampleDb ''bob''))
                              ''bob_2025-08-03'' ''08:30'' []))) ''bob_2025-08-03''
       = Some \<lparr>username = ''bob'', date = ''2025-08-03'', timeIn = ''2025-08-03T22:00'', timeOut = [],
               adjTimeIn = ''08:30'', adjTimeOut = []\<rparr>
   \<and> punchIn 300 1754258460000
        (snd (saveAdjustmentRow (snd (punchIn 300 1754258400000 exampleDb ''bob'')) ''bob_2025-08-03'' ''08:30'' []))
        ''bob''
       = (Some AlreadyPunchedIn,
          snd (saveAdjustmentRow (snd (punchIn 300 1754258400000 exampleDb ''bob'')) ''bob_2025-08-03'' ''08:30'' []))
   \<and> punchIn 300 1754258400000 (snd (saveAdjustmentRow exampleDb ''alice_2025-08-03'' ''08:30'' ''18:00'')) ''alice''
       = (Some AlreadyPunchedIn, snd (saveAdjustmentRow exampleDb ''alice_2025-08-03'' ''08:30'' ''18:00''))"
proof -
  have day: "getISODateString 300 1754258400000 = ''2025-08-03''"
    and day': "getISODateString 300 1754258460000 = ''2025-08-03''"
    and iso: "take 16 (toISOString 1754258400000) = ''2025-08-03T22:00''"
    by code_simp+
  have idA: "''alice_2025-08-03'' = ''alice'' @ ''_'' @ getISODateString 300 1754258400000"
    and idB: "''bob_2025-08-03'' = ''bob'' @ ''_'' @ getISODateString 300 1754258400000"
    by (simp_all add: day)
  note A = C3_effective_range [OF idA, where parse = "dateParse 300" and rate = "Fin 20"
      and sh = adjustedShift and tb = "[]" and th = "Fin 0" and tp = "Fin 0"
      and before = "[dayShift]" and after = "[openShift]" and t = "''2025-08-02T08:00''"
      and acc = "([], Fin 0, Fin 0)" and db = exampleDb and d = openShift
      and adjIn = "''08:30''" and adjOut = "''18:00''"]
  note B = C3_effective_range [OF idA, where parse = "dateParse 300" and rate = "Fin 20"
      and sh = "dayShift\<lparr>adjTimeOut := ''2025-08-02T18:00''\<rparr>"
      and before = "[dayShift]" and after = "[openShift]" and t = "''2025-08-02T19:00''"
      and acc = "([], Fin 0, Fin 0)"]
  note C = C3_effective_range [OF idB, where db = exampleDb and adjIn = "''08:30''" and adjOut = "[]"
      and later = 1754258460000]
  have "tableLoop (dateParse 300) (Fin 20) [adjustedShift] ([], Fin 0, Fin 0) =
      (let start = (if adjTimeIn adjustedShift \<noteq> [] then adjTimeIn adjustedShift else timeIn adjustedShift);
           end' = (if adjTimeOut adjustedShift \<noteq> [] then adjTimeOut adjustedShift else timeOut adjustedShift);
           h = computeHours (dateParse 300) start end';
           p = jsDivBy (jsMathRound (jsMul (jsMul h (Fin 20)) (Fin 100))) 100
       in if start \<noteq> [] \<and> end' \<noteq> []
          then ([] @ [mkRow adjustedShift h p], jsAdd (Fin 0) h, jsAdd (Fin 0) p)
          else ([] @ [mkRow adjustedShift (Fin 0) (Fin 0)], Fin 0, Fin 0))"
    by (rule A [THEN conjunct1])
  also have "\<dots> = ([mkRow adjustedShift (Fin (29 / 4)) (Fin 145)], Fin (29 / 4), Fin 145)"
    by code_simp
  finally have 1: "tableLoop (dateParse 300) (Fin 20) [adjustedShift] ([], Fin 0, Fin 0)
     = ([mkRow adjustedShift (Fin (29 / 4)) (Fin 145)], Fin (29 / 4), Fin 145)" .
  have adj: "adjTimeIn adjustedShift \<noteq> []"
    by (simp add: adjustedShift_def)
  have 2: "snd (tableLoop (dateParse 300) (Fin 20)
            ([dayShift] @ adjustedShift\<lparr>timeIn := ''2025-08-02T08:00''\<rparr> # [openShift]) ([], Fin 0, Fin 0))
       = snd (tableLoop (dateParse 300) (Fin 20) ([dayShift] @ adjustedShift # [openShift]) ([], Fin 0, Fin 0))"
    by (rule A [THEN conjunct2, THEN conjunct1, THEN mp, OF adj, THEN conjunct1])
  have adjo: "adjTimeOut (dayShift\<lparr>adjTimeOut := ''2025-08-02T18:00''\<rparr>) \<noteq> []"
    by simp
  have "snd (tableLoop (dateParse 300) (Fin 20)
            ([dayShift] @ dayShift\<lparr>adjTimeOut := ''2025-08-02T18:00''\<rparr>\<lparr>timeOut := ''2025-08-02T19:00''\<rparr> # [openShift])
            ([], Fin 0, Fin 0))
       = snd (tableLoop (dateParse 300) (Fin 20)
            ([dayShift] @ dayShift\<lparr>adjTimeOut := ''2025-08-02T18:00''\<rparr> # [openShift]) ([], Fin 0, Fin 0))"
    by (rule B [THEN conjunct2, THEN conjunct2, THEN conjunct1, THEN mp, OF adjo, THEN conjunct1])
  then have 3: "snd (tableLoop (dateParse 300) (Fin 20)
            ([dayShift] @ dayShift\<lparr>adjTimeOut := ''2025-08-02T18:00'', timeOut := ''2025-08-02T19:00''\<rparr> # [openShift])
            ([], Fin 0, Fin 0))
       = snd (tableLoop (dateParse 300) (Fin 20)
            ([dayShift] @ dayShift\<lparr>adjTimeOut := ''2025-08-02T18:00''\<rparr> # [openShift]) ([], Fin 0, Fin 0))" .
  have open': "doc_get (shifts exampleDb) ''alice_2025-08-03'' = Some openShift \<and> timeIn openShift \<noteq> []
      \<and> timeOut openShift = [] \<and> ''18:00'' \<noteq> []"
    by (simp add: doc_get_def exampleDb_def openShift_def)
  note A4 = A [THEN conjunct2, THEN conjunct2, THEN conjunct2, THEN conjunct1, THEN mp, OF open']
  have 4: "saveAdjustmentRow (snd (punchOut 300 1754258400000 exampleDb ''alice'')) ''alice_2025-08-03'' ''08:30'' ''18:00''
       = punchOut 300 1754258400000 (snd (saveAdjustmentRow exampleDb ''alice_2025-08-03'' ''08:30'' ''18:00'')) ''alice''"
    by (rule A4 [THEN conjunct2, THEN conjunct2, THEN conjunct1])
  have "doc_get (shifts (snd (saveAdjustmentRow (snd (punchOut 300 1754258400000 exampleDb ''alice''))
                              ''alice_2025-08-03'' ''08:30'' ''18:00''))) ''alice_2025-08-03''
       = Some (openShift\<lparr>timeOut := take 16 (toISOString 1754258400000), adjTimeIn := ''08:30'',
                          adjTimeOut := ''18:00''\<rparr>)"
    by (rule A4 [THEN conjunct2, THEN conjunct2, THEN conjunct2, THEN conjunct2, THEN conjunct1])
  then have 5: "doc_get (shifts (snd (saveAdjustmentRow (snd (punchOut 300 1754258400000 exampleDb ''alice''))
                              ''alice_2025-08-03'' ''08:30'' ''18:00''))) ''alice_2025-08-03''
       = Some (openShift\<lparr>timeOut := ''2025-08-03T22:00'', adjTimeIn := ''08:30'', adjTimeOut := ''18:00''\<rparr>)"
    by (simp only: iso)
  have bob: "fst (punchIn 300 1754258400000 exampleDb ''bob'') = None \<and> ''08:30'' \<noteq> []"
    by (simp add: punchIn_def Let_def day doc_get_def exampleDb_def)
  note C5 = C [THEN conjunct2, THEN conjunct2, THEN conjunct2, THEN conjunct2, THEN conjunct1, THEN mp, OF bob]
  have "doc_get (shifts (snd (saveAdjustmentRow (snd (punchIn 300 1754258400000 exampleDb ''bob''))
                              ''bob_2025-08-03'' ''08:30'' []))) ''bob_2025-08-03''
       = Some \<lparr>username = ''bob'', date = getISODateString 300 1754258400000,
               timeIn = take 16 (toISOString 1754258400000), timeOut = [],
               adjTimeIn = ''08:30'', adjTimeOut = []\<rparr>"
    by (rule C5 [THEN conjunct2, THEN conjunct1])
  then have 6: "doc_get (shifts (snd (saveAdjustmentRow (snd (punchIn 300 1754258400000 exampleDb ''bob''))
                              ''bob_2025-08-03'' ''08:30'' []))) ''bob_2025-08-03''
       = Some \<lparr>username = ''bob'', date = ''2025-08-03'', timeIn = ''2025-08-03T22:00'', timeOut = [],
               adjTimeIn = ''08:30'', adjTimeOut = []\<rparr>"
    by (simp only: iso day)
  have same: "getISODateString 300 1754258460000 = getISODateString 300 1754258400000"
    by (simp only: day day')
  have 7: "punchIn 300 1754258460000
        (snd (saveAdjustmentRow (snd (punchIn 300 1754258400000 exampleDb ''bob'')) ''bob_2025-08-03'' ''08:30'' []))
        ''bob''
       = (Some AlreadyPunchedIn,
          snd (saveAdjustmentRow (snd (punchIn 300 1754258400000 exampleDb ''bob'')) ''bob_2025-08-03'' ''08:30'' []))"
    by (rule C5 [THEN conjunct2, THEN conjunct2, THEN conjunct2, THEN mp, OF same])
  have open'': "doc_get (shifts exampleDb) ''alice_2025-08-03'' = Some openShift \<and> timeIn openShift \<noteq> []
      \<and> ''08:30'' \<noteq> []"
    by (simp add: doc_get_def exampleDb_def openShift_def)
  note A6 = A [THEN conjunct2, THEN conjunct2, THEN conjunct2, THEN conjunct2, THEN conjunct2, THEN mp, OF open'']
  have 8: "punchIn 300 1754258400000 (snd (saveAdjustmentRow exampleDb ''alice_2025-08-03'' ''08:30'' ''18:00'')) ''alice''
       = (Some AlreadyPunchedIn, snd (saveAdjustmentRow exampleDb ''alice_2025-08-03'' ''08:30'' ''18:00''))"
    by (rule A6 [THEN conjunct2, THEN conjunct1])
  show ?thesis
    by (rule conjI [OF 1 conjI [OF 2 conjI [OF 3 conjI [OF 4 conjI [OF 5 conjI [OF 6 conjI [OF 7 8]]]]]]])
qed

text \<open>
  C6. The loop of \<open>updateTable\<close> lists one row for each shift of the period, in order.
  When both the effective start and the effective end of a shift are present, the row's
  hours are \<open>computeHours\<close> of the two and its pay is
  \<open>Math.round(hours * rate * 100) / 100\<close>, each operation in double arithmetic. When
  either is missing, hours and pay of the row are 0 and the totals are those of the period
  without that shift; the row is listed all the same.
\<close>

theorem C6_row_hours_and_pay:
  assumes run: "tableLoop parse rate periodShifts ([], Fin 0, Fin 0) = (tbody, totalHours, totalPay)"
    and i: "i < length periodShifts"
  shows "length tbody = length periodShifts
    \<and> rowDate (tbody ! i) = date (periodShifts ! i)
    \<and> (actualStartStr (periodShifts ! i) \<noteq> [] \<and> actualEndStr (periodShifts ! i) \<noteq> [] \<longrightarrow>
         hours (tbody ! i) =
           computeHours parse (actualStartStr (periodShifts ! i)) (actualEndStr (periodShifts ! i))
         \<and> pay (tbody ! i) = jsDivBy (jsMathRound (jsMul (jsMul (hours (tbody ! i)) rate) (Fin 100))) 100)
    \<and> (actualStartStr (periodShifts ! i) = [] \<or> actualEndStr (periodShifts ! i) = [] \<longrightarrow>
         hours (tbody ! i) = Fin 0 \<and> pay (tbody ! i) = Fin 0
         \<and> snd (tableLoop parse rate (take i periodShifts @ drop (Suc i) periodShifts) ([], Fin 0, Fin 0))
             = (totalHours, totalPay))"
proof -
  let ?sh = "periodShifts ! i"
  let ?present = "\<lambda>sh. actualStartStr sh \<noteq> [] \<and> actualEndStr sh \<noteq> []"
  let ?row = "\<lambda>sh. if actualStartStr sh \<noteq> [] \<and> actualEndStr sh \<noteq> []
                    then mkRow sh (computeHours parse (actualStartStr sh) (actualEndStr sh))
                           (jsDivBy (jsMathRound (jsMul (jsMul
                              (computeHours parse (actualStartStr sh) (actualEndStr sh)) rate) (Fin 100))) 100)
                    else mkRow sh (Fin 0) (Fin 0)"
  have "fst (tableLoop parse rate periodShifts ([], Fin 0, Fin 0)) = [] @ map ?row periodShifts"
    by (rule tableLoop_rows)
  then have tb: "tbody = map ?row periodShifts"
    by (simp add: run)
  have tot: "snd (tableLoop parse rate periodShifts ([], Fin 0, Fin 0)) = (totalHours, totalPay)"
    by (simp add: run)
  have row: "tbody ! i = ?row ?sh"
    using i by (simp add: tb)
  have len: "length tbody = length periodShifts" by (simp add: tb)
  have d: "rowDate (tbody ! i) = date ?sh" by (simp add: row mkRow_def)
  have present: "actualStartStr ?sh \<noteq> [] \<and> actualEndStr ?sh \<noteq> [] \<longrightarrow>
         hours (tbody ! i) = computeHours parse (actualStartStr ?sh) (actualEndStr ?sh)
         \<and> pay (tbody ! i) = jsDivBy (jsMathRound (jsMul (jsMul (hours (tbody ! i)) rate) (Fin 100))) 100"
    by (simp add: row mkRow_def)
  have missing: "actualStartStr ?sh = [] \<or> actualEndStr ?sh = [] \<longrightarrow>
         hours (tbody ! i) = Fin 0 \<and> pay (tbody ! i) = Fin 0
         \<and> snd (tableLoop parse rate (take i periodShifts @ drop (Suc i) periodShifts) ([], Fin 0, Fin 0))
             = (totalHours, totalPay)"
  proof
    assume m: "actualStartStr ?sh = [] \<or> actualEndStr ?sh = []"
    then have np: "\<not> ?present ?sh" by blast
    have z: "hours (tbody ! i) = Fin 0" "pay (tbody ! i) = Fin 0"
      using np by (auto simp: row mkRow_def)
    have f: "filter ?present (take i periodShifts @ drop (Suc i) periodShifts) = filter ?present periodShifts"
      using i np by (rule filter_drop_nth)
    have "snd (tableLoop parse rate (take i periodShifts @ drop (Suc i) periodShifts) ([], Fin 0, Fin 0))
            = snd (tableLoop parse rate periodShifts ([], Fin 0, Fin 0))"
      by (simp only: tableLoop_totals f)
    then show "hours (tbody ! i) = Fin 0 \<and> pay (tbody ! i) = Fin 0
         \<and> snd (tableLoop parse rate (take i periodShifts @ drop (Suc i) periodShifts) ([], Fin 0, Fin 0))
             = (totalHours, totalPay)"
      using z by (simp only: tot)
  qed
  show ?thesis by (rule conjI [OF len conjI [OF d conjI [OF present missing]]])
qed

theorem C6_row_hours_and_pay_witness:
  "hours (fst (tableLoop (dateParse 300) (Fin 20) [dayShift, openShift] ([], Fin 0, Fin 0)) ! 0) = Fin (33 / 4)
   \<and> pay (fst (tableLoop (dateParse 300) (Fin 20) [dayShift, openShift] ([], Fin 0, Fin 0)) ! 0) = Fin 165
   \<and> length (fst (tableLoop (dateParse 300) (Fin 20) [dayShift, openShift] ([], Fin 0, Fin 0))) = 2
   \<and> rowDate (fst (tableLoop (dateParse 300) (Fin 20) [dayShift, openShift] ([], Fin 0, Fin 0)) ! 1) = ''2025-08-03''
   \<and> hours (fst (tableLoop (dateParse 300) (Fin 20) [dayShift, openShift] ([], Fin 0, Fin 0)) ! 1) = Fin 0
   \<and> pay (fst (tableLoop (dateParse 300) (Fin 20) [dayShift, openShift] ([], Fin 0, Fin 0)) ! 1) = Fin 0
   \<and> snd (tableLoop (dateParse 300) (Fin 20) [dayShift] ([], Fin 0, Fin 0))
       = snd (tableLoop (dateParse 300) (Fin 20) [dayShift, openShift] ([], Fin 0, Fin 0))
   \<and> pay (fst (tableLoop (dateParse 300) (toDouble (1078 / 100)) [dayShift] ([], Fin 0, Fin 0)) ! 0)
       = toDouble (8893 / 100)"
proof -
  obtain tbody th tp
    where run: "tableLoop (dateParse 300) (Fin 20) [dayShift, openShift] ([], Fin 0, Fin 0) = (tbody, th, tp)"
    by (metis prod_cases3)
  obtain tbody' th' tp'
    where run': "tableLoop (dateParse 300) (toDouble (1078 / 100)) [dayShift] ([], Fin 0, Fin 0) = (tbody', th', tp')"
    by (metis prod_cases3)
  have s0: "actualStartStr dayShift = ''2025-08-02T09:00''"
    and e0: "actualEndStr dayShift = ''2025-08-02T17:15''"
    and e1: "actualEndStr openShift = []"
    and d1: "date openShift = ''2025-08-03''"
    by (simp_all add: actualStartStr_def actualEndStr_def jsOr_def dayShift_def openShift_def)
  have h: "computeHours (dateParse 300) ''2025-08-02T09:00'' ''2025-08-02T17:15'' = Fin (33 / 4)"
    by code_simp
  have r: "jsDivBy (jsMathRound (jsMul (jsMul (Fin (33 / 4)) (Fin 20)) (Fin 100))) 100 = Fin 165"
    by code_simp
  have r': "jsDivBy (jsMathRound (jsMul (jsMul (Fin (33 / 4)) (toDouble (1078 / 100))) (Fin 100))) 100
      = toDouble (8893 / 100)"
    by code_simp
  have i0: "0 < length [dayShift, openShift]" and i1: "1 < length [dayShift, openShift]"
    and i0': "0 < length [dayShift]"
    by simp_all
  have p0: "actualStartStr ([dayShift, openShift] ! 0) \<noteq> [] \<and> actualEndStr ([dayShift, openShift] ! 0) \<noteq> []"
    by (simp add: s0 e0)
  have p0': "actualStartStr ([dayShift] ! 0) \<noteq> [] \<and> actualEndStr ([dayShift] ! 0) \<noteq> []"
    by (simp add: s0 e0)
  have p1: "actualStartStr ([dayShift, openShift] ! 1) = [] \<or> actualEndStr ([dayShift, openShift] ! 1) = []"
    by (simp add: e1)
  note c0 = C6_row_hours_and_pay [OF run i0]
  note c1 = C6_row_hours_and_pay [OF run i1]
  note c2 = C6_row_hours_and_pay [OF run' i0']
  have "length tbody = length [dayShift, openShift]" using c0 by blast
  then have len: "length tbody = 2" by simp
  have "hours (tbody ! 0) =
      computeHours (dateParse 300) (actualStartStr ([dayShift, openShift] ! 0)) (actualEndStr ([dayShift, openShift] ! 0))"
    using c0 p0 by blast
  then have h0: "hours (tbody ! 0) = Fin (33 / 4)" by (simp add: s0 e0 h)
  have "pay (tbody ! 0) = jsDivBy (jsMathRound (jsMul (jsMul (hours (tbody ! 0)) (Fin 20)) (Fin 100))) 100"
    using c0 p0 by blast
  then have pay0: "pay (tbody ! 0) = Fin 165" by (simp only: h0 r)
  have "hours (tbody' ! 0) =
      computeHours (dateParse 300) (actualStartStr ([dayShift] ! 0)) (actualEndStr ([dayShift] ! 0))"
    using c2 p0' by blast
  then have h0': "hours (tbody' ! 0) = Fin (33 / 4)" by (simp add: s0 e0 h)
  have "pay (tbody' ! 0)
      = jsDivBy (jsMathRound (jsMul (jsMul (hours (tbody' ! 0)) (toDouble (1078 / 100))) (Fin 100))) 100"
    using c2 p0' by blast
  then have pay0': "pay (tbody' ! 0) = toDouble (8893 / 100)" by (simp only: h0' r')
  have "rowDate (tbody ! 1) = date ([dayShift, openShift] ! 1)" using c1 by blast
  then have dt: "rowDate (tbody ! 1) = ''2025-08-03''" by (simp add: d1)
  have z: "hours (tbody ! 1) = Fin 0" "pay (tbody ! 1) = Fin 0" using c1 p1 by blast+
  have l: "take 1 [dayShift, openShift] @ drop (Suc 1) [dayShift, openShift] = [dayShift]"
    by simp
  have "snd (tableLoop (dateParse 300) (Fin 20)
          (take 1 [dayShift, openShift] @ drop (Suc 1) [dayShift, openShift]) ([], Fin 0, Fin 0))
      = (th, tp)"
    using c1 p1 by blast
  then have tot: "snd (tableLoop (dateParse 300) (Fin 20) [dayShift] ([], Fin 0, Fin 0)) = (th, tp)"
    by (simp only: l)
  have f: "fst (tableLoop (dateParse 300) (Fin 20) [dayShift, openShift] ([], Fin 0, Fin 0)) = tbody"
    and g: "snd (tableLoop (dateParse 300) (Fin 20) [dayShift, openShift] ([], Fin 0, Fin 0)) = (th, tp)"
    and f': "fst (tableLoop (dateParse 300) (toDouble (1078 / 100)) [dayShift] ([], Fin 0, Fin 0)) = tbody'"
    by (simp_all only: run run' fst_conv snd_conv)
  show ?thesis unfolding f g f' using len h0 pay0 dt z tot pay0' by blast
qed

end
